theory Spec2Isabelle
  imports Main "HOL-Library.Sublist"
begin

section \<open>Python values used by the research tools\<close>

text \<open>
  Python \<open>str\<close> values are modelled as \<^typ>\<open>string\<close>, holding the UTF-8 bytes of the
  text. Every test the programs make on text (emptiness, equality, the braces of a
  format string) reads the same on bytes and on code points. An argument that may be
  \<open>None\<close> (an unset widget) is a \<^typ>\<open>string option\<close>.
\<close>

text \<open>
  Exceptions are values. \<open>Interrupt\<close> stands for the exceptions that derive from
  \<open>BaseException\<close> only (\<open>KeyboardInterrupt\<close>, \<open>SystemExit\<close>), which
  \<open>except Exception\<close> does not catch. \<open>Unmodelled\<close> marks a replacement field using
  a conversion, a format specification, an attribute or an index, which the model of
  \<open>str.format\<close> below does not cover.
\<close>

datatype py_exn =
    KeyError string
  | ValueError string
  | IndexError string
  | TypeError string
  | AttributeError string
  | JSONDecodeError string
  | ServiceError string
  | Interrupt string
  | Unmodelled

fun is_Exception :: "py_exn \<Rightarrow> bool" where
  "is_Exception (Interrupt m) = False"
| "is_Exception e = True"

text \<open>Truth value of an optional string: \<open>None\<close> and \<open>""\<close> are false.\<close>

fun truthy :: "string option \<Rightarrow> bool" where
  "truthy None = False"
| "truthy (Some s) = (s \<noteq> [])"

text \<open>
  \<open>str.upper\<close>. On text that is all ASCII the letters \<open>a\<close> to \<open>z\<close> move to \<open>A\<close>
  to \<open>Z\<close> and every other character is kept. On text with a character outside
  ASCII the result is given by the Unicode tables of the Python runtime
  (\<open>'stra\<ss>e'.upper()\<close> is \<open>'STRASSE'\<close>); this part is the first argument.
\<close>

definition upper_char :: "char \<Rightarrow> char" where
  "upper_char c =
     (let n = (of_char c :: nat) in if 97 \<le> n \<and> n \<le> 122 then char_of (n - 32) else c)"

definition is_ascii :: "string \<Rightarrow> bool" where
  "is_ascii s = list_all (\<lambda>c. (of_char c :: nat) < 128) s"

definition upper :: "(string \<Rightarrow> string) \<Rightarrow> string \<Rightarrow> string" where
  "upper unicode_upper s = (if is_ascii s then map upper_char s else unicode_upper s)"

text \<open>The substring test (\<open>needle in text\<close>).\<close>

fun contains :: "string \<Rightarrow> string \<Rightarrow> bool" where
  "contains needle [] = (needle = [])"
| "contains needle (c # cs) = (prefix needle (c # cs) \<or> contains needle cs)"

section \<open>\<open>str.format\<close> with keyword arguments\<close>

text \<open>
  \<open>template.format(**kw)\<close> walks the template from left to right. \<open>{{\<close> and \<open>}}\<close>
  are the escaped braces; a lone \<open>}\<close> and a \<open>{\<close> at the end are errors; \<open>{\<close> opens a
  replacement field that runs to the next \<open>}\<close>. The field is looked up when its
  closing brace is read, so the first error from the left is the one raised.
  The second argument is the scanner's mode: \<open>None\<close> in literal text,
  \<open>Some acc\<close> inside a field whose name so far is \<open>acc\<close>.
\<close>

definition single_close :: string where
  "single_close = ''Single '' @ [CHR 0x27] @ ''}'' @ [CHR 0x27] @ '' encountered in format string''"

definition single_open :: string where
  "single_open = ''Single '' @ [CHR 0x27] @ ''{'' @ [CHR 0x27] @ '' encountered in format string''"

definition unexpected_open :: string where
  "unexpected_open = ''unexpected '' @ [CHR 0x27] @ ''{'' @ [CHR 0x27] @ '' in field name''"

definition expected_close :: string where
  "expected_close = ''expected '' @ [CHR 0x27] @ ''}'' @ [CHR 0x27] @ '' before end of string''"

definition is_digit :: "char \<Rightarrow> bool" where
  "is_digit c = (let n = (of_char c :: nat) in 48 \<le> n \<and> n \<le> 57)"

text \<open>
  A field with an empty or an all-digit name refers to a positional argument; the
  call passes none, so it raises \<open>IndexError\<close>. Any other name is a key of \<open>kw\<close>.
\<close>

definition get_field :: "(string \<rightharpoonup> string) \<Rightarrow> string \<Rightarrow> py_exn + string" where
  "get_field kw field_name =
     (if list_all is_digit field_name then Inl (IndexError field_name)
      else case kw field_name of
             None \<Rightarrow> Inl (KeyError field_name)
           | Some v \<Rightarrow> Inr v)"

fun format_from :: "(string \<rightharpoonup> string) \<Rightarrow> string option \<Rightarrow> string \<Rightarrow> py_exn + string" where
  "format_from kw None [] = Inr []"
| "format_from kw None (c # cs) =
     (if c = CHR ''{'' then
        (case cs of
           [] \<Rightarrow> Inl (ValueError single_open)
         | d # ds \<Rightarrow>
             if d = CHR ''{'' then map_sum id ((#) c) (format_from kw None ds)
             else format_from kw (Some []) cs)
      else if c = CHR ''}'' then
        (case cs of
           [] \<Rightarrow> Inl (ValueError single_close)
         | d # ds \<Rightarrow>
             if d = CHR ''}'' then map_sum id ((#) c) (format_from kw None ds)
             else Inl (ValueError single_close))
      else map_sum id ((#) c) (format_from kw None cs))"
| "format_from kw (Some acc) [] = Inl (ValueError expected_close)"
| "format_from kw (Some acc) (c # cs) =
     (if c = CHR ''}'' then
        (case get_field kw acc of
           Inl e \<Rightarrow> Inl e
         | Inr v \<Rightarrow> map_sum id ((@) v) (format_from kw None cs))
      else if c = CHR ''{'' then Inl (ValueError unexpected_open)
      else if c \<in> set ''!:.['' then Inl Unmodelled
      else format_from kw (Some (acc @ [c])) cs)"

definition format :: "string \<Rightarrow> (string \<rightharpoonup> string) \<Rightarrow> py_exn + string" where
  "format template kw = format_from kw None template"

text \<open>
  The placeholder names of a template: the names of its replacement fields, in order,
  read with the same scanner (escaped braces are text, a lone \<open>}\<close> is skipped, a field
  that is never closed has no name).
\<close>

fun placeholders_from :: "string option \<Rightarrow> string \<Rightarrow> string list" where
  "placeholders_from None [] = []"
| "placeholders_from None (c # cs) =
     (if c = CHR ''{'' then
        (case cs of
           [] \<Rightarrow> []
         | d # ds \<Rightarrow>
             if d = CHR ''{'' then placeholders_from None ds
             else placeholders_from (Some []) cs)
      else if c = CHR ''}'' then
        (case cs of
           [] \<Rightarrow> []
         | d # ds \<Rightarrow>
             if d = CHR ''}'' then placeholders_from None ds
             else placeholders_from None cs)
      else placeholders_from None cs)"
| "placeholders_from (Some acc) [] = []"
| "placeholders_from (Some acc) (c # cs) =
     (if c = CHR ''}'' then acc # placeholders_from None cs
      else placeholders_from (Some (acc @ [c])) cs)"

definition placeholders :: "string \<Rightarrow> string list" where
  "placeholders template = placeholders_from None template"

section \<open>The analysis catalogs\<close>

text \<open>
  Each program holds a module-level list \<open>ANALYSES\<close> of dictionaries. The keys that
  occur are \<open>id\<close>, \<open>name\<close>, \<open>prompt_template\<close>, \<open>params\<close> and \<open>required_params\<close>;
  the first three are in every entry, the last two are optional keys. The value of
  \<open>id\<close> is a string in most entries and an integer in some.
\<close>

datatype id_value = IdStr string | IdInt int

record analysis =
  ident :: id_value
  name :: string
  prompt_template :: string
  params :: "string list option"
  required_params :: "string list option"

subsection \<open>The catalog of src/FINAL_catch_trends_stream.py\<close>

definition analysis_catch_trends_1 :: analysis where
  "analysis_catch_trends_1 = \<lparr>
   ident = IdStr ''1'',
   name = ''Real-Time stock sentiment'',
   prompt_template =
     ''Search X (Twitter) for the latest discussions about '' @
     ''{stock}'' @
     '' and analyze the sentiment. Focus on actionable insights, not '' @
     ''noise.'',
   params = Some [''stock''],
   required_params = None\<rparr>"

definition analysis_catch_trends_2 :: analysis where
  "analysis_catch_trends_2 = \<lparr>
   ident = IdStr ''2'',
   name = ''Analyze current discussions on X about emerging trends in sector'',
   prompt_template =
     ''Sector: '' @
     ''{sector}'' @
     '' Focus: '' @
     ''{capfocus}'' @
     '' Identify trending stocks and catalysts.'',
   params = Some [''sector'', ''capfocus''],
   required_params = None\<rparr>"

definition analysis_catch_trends_3 :: analysis where
  "analysis_catch_trends_3 = \<lparr>
   ident = IdStr ''3'',
   name = ''Track Smart Money and Influencer Moves'',
   prompt_template =
     ''Search X for recent activity from notable investors regarding '' @
     ''{sector}'' @
     ''.'',
   params = Some [''sector''],
   required_params = None\<rparr>"

definition analysis_catch_trends_4 :: analysis where
  "analysis_catch_trends_4 = \<lparr>
   ident = IdStr ''4'',
   name = ''Identify Stocks with Viral Momentum'',
   prompt_template =
     ''Search X for stocks gaining viral momentum for market cap '' @
     ''{capfocus}'' @
     ''.'',
   params = Some [''capfocus''],
   required_params = None\<rparr>"

definition analysis_catch_trends_5 :: analysis where
  "analysis_catch_trends_5 = \<lparr>
   ident = IdStr ''5'',
   name = ''Monitor Breaking News and Catalysts'',
   prompt_template =
     ''Search X for breaking news and catalysts related to '' @
     ''{stock}'' @
     '' in the last 24 hours.'',
   params = Some [''stock''],
   required_params = None\<rparr>"

definition analysis_catch_trends_6 :: analysis where
  "analysis_catch_trends_6 = \<lparr>
   ident = IdStr ''6'',
   name = ''Gauge Retail vs. Institutional Sentiment'',
   prompt_template =
     ''Analyze the difference between retail and institutional sentiment '' @
     ''for '' @
     ''{stock}'' @
     '' based on X.'',
   params = Some [''stock''],
   required_params = None\<rparr>"

definition analysis_catch_trends_7 :: analysis where
  "analysis_catch_trends_7 = \<lparr>
   ident = IdStr ''7'',
   name = ''Detect Early Warning Signs and Red Flags'',
   prompt_template =
     ''Search X for red flags, concerns, or negative sentiment about '' @
     ''{stock}'' @
     ''.'',
   params = Some [''stock''],
   required_params = None\<rparr>"

definition analysis_catch_trends_8 :: analysis where
  "analysis_catch_trends_8 = \<lparr>
   ident = IdStr ''8'',
   name = ''Create a Real-Time Watchlist Strategy'',
   prompt_template =
     ''Help me build a system to monitor '' @
     ''{sector}'' @
     '' stocks for '' @
     ''{capfocus}'' @
     '' with '' @
     ''{risk}'' @
     '' risk.'',
   params = Some [''capfocus'', ''sector'', ''risk''],
   required_params = None\<rparr>"

definition ANALYSES_catch_trends :: "analysis list" where
  "ANALYSES_catch_trends =
    [analysis_catch_trends_1, analysis_catch_trends_2, analysis_catch_trends_3,
     analysis_catch_trends_4, analysis_catch_trends_5, analysis_catch_trends_6,
     analysis_catch_trends_7, analysis_catch_trends_8]"

subsection \<open>The catalog of src/stock_and_market_research.py\<close>

definition analysis_market_1 :: analysis where
  "analysis_market_1 = \<lparr>
   ident = IdStr ''1'',
   name = ''Real-Time Sentiment Pulse'',
   prompt_template =
     ''Analyze X discussions about '' @
     ''{stock}'' @
     '' from the last 24'' @
     [CHR 0xE2, CHR 0x80, CHR 0x93] @
     ''48 hours.Classify sentiment (bullish / neutral / bearish) and '' @
     ''explain why sentiment is shifting.'',
   params = Some [''stock''],
   required_params = None\<rparr>"

definition analysis_market_2 :: analysis where
  "analysis_market_2 = \<lparr>
   ident = IdStr ''2'',
   name = ''Sudden Attention Spike Detector'',
   prompt_template =
     ''Find stocks that saw a sudden spike in mentions on X in the '' @
     ''last 12 hours, excluding major news outlets. Focus on organic '' @
     ''chatter, not headlines.'',
   params = Some [],
   required_params = None\<rparr>"

definition analysis_market_3 :: analysis where
  "analysis_market_3 = \<lparr>
   ident = IdStr ''3'',
   name = ''Retail Before Institutions'',
   prompt_template =
     ''Identify stocks where retail traders are accumulating before '' @
     ''any analyst upgrades or institutional reports.'',
   params = Some [],
   required_params = None\<rparr>"

definition analysis_market_4 :: analysis where
  "analysis_market_4 = \<lparr>
   ident = IdStr ''4'',
   name = ''Narrative Change Tracker'',
   prompt_template =
     ''Track how the narrative around '' @
     ''{stock}'' @
     '' has changed over the last 30 days.What are people saying now '' @
     ''that they weren'' @
     [CHR 0xE2, CHR 0x80, CHR 0x99] @
     ''t saying before?'',
   params = Some [''stock''],
   required_params = None\<rparr>"

definition analysis_market_5 :: analysis where
  "analysis_market_5 = \<lparr>
   ident = IdStr ''5'',
   name = ''Influencer Accumulation Signal'',
   prompt_template =
     ''Detect when respected traders, operators, or domain experts '' @
     ''start mentioning a stock repeatedly without hyping it.'',
   params = Some [],
   required_params = None\<rparr>"

definition analysis_market_6 :: analysis where
  "analysis_market_6 = \<lparr>
   ident = IdStr ''6'',
   name = ''Bear-to-Bull Flip Alert'',
   prompt_template =
     ''Find stocks where historically bearish accounts recently turned '' @
     ''neutral or bullish.Highlight exact language changes.'',
   params = Some [''sector'', ''risk''],
   required_params = None\<rparr>"

definition analysis_market_7 :: analysis where
  "analysis_market_7 = \<lparr>
   ident = IdStr ''7'',
   name = ''Hidden Catalyst Discovery'',
   prompt_template =
     ''Scan X for subtle mentions of upcoming catalysts (contracts, '' @
     ''regulation changes, pilots, partnerships) that are not in mainstream '' @
     ''news.'',
   params = Some [],
   required_params = None\<rparr>"

definition analysis_market_8 :: analysis where
  "analysis_market_8 = \<lparr>
   ident = IdStr ''8'',
   name = ''Insider Language Pattern Scan'',
   prompt_template =
     ''Analyze posts from employees, ex-employees, or contractors casually '' @
     ''referencing their companys momentum or workload.'',
   params = Some [],
   required_params = None\<rparr>"

definition analysis_market_9 :: analysis where
  "analysis_market_9 = \<lparr>
   ident = IdStr ''9'',
   name = ''Volume Without News'',
   prompt_template =
     ''Identify stocks with unusual trading volume today but no major '' @
     ''news.Cross-check with X sentiment for possible early explanations.'',
   params = Some [],
   required_params = None\<rparr>"

definition analysis_market_10 :: analysis where
  "analysis_market_10 = \<lparr>
   ident = IdStr ''10'',
   name = ''Sector Rotation Early Signal'',
   prompt_template =
     ''Detect early chatter suggesting capital rotating into a specific '' @
     ''sector before ETFs or analysts mention it.Rotations start on '' @
     ''X, not Bloomberg.'',
   params = Some [],
   required_params = None\<rparr>"

definition analysis_market_11 :: analysis where
  "analysis_market_11 = \<lparr>
   ident = IdStr ''11'',
   name = ''Earnings Whisper Analysis'',
   prompt_template =
     ''Analyze pre-earnings discussions on X to extract '' @
     [CHR 0xE2, CHR 0x80, CHR 0x98] @
     ''whisper numbers'' @
     [CHR 0xE2, CHR 0x80, CHR 0x99] @
     '' and expectations versus consensus.'',
   params = Some [],
   required_params = None\<rparr>"

definition analysis_market_12 :: analysis where
  "analysis_market_12 = \<lparr>
   ident = IdStr ''12'',
   name = ''Crowded Trade Exit Signal'',
   prompt_template =
     ''Find stocks where bullish sentiment is becoming repetitive, '' @
     ''meme-like, or overly confident.'',
   params = Some [''sector'', ''risk''],
   required_params = None\<rparr>"

definition analysis_market_13 :: analysis where
  "analysis_market_13 = \<lparr>
   ident = IdStr ''13'',
   name = ''Small-Cap Smart Money Trail'',
   prompt_template =
     ''Identify small-cap stocks being discussed by hedge fund analysts, '' @
     ''ex-bankers, or finance PhDs on X.'',
   params = Some [],
   required_params = None\<rparr>"

definition analysis_market_14 :: analysis where
  "analysis_market_14 = \<lparr>
   ident = IdStr ''14'',
   name = ''Fear Compression Scan'',
   prompt_template =
     ''Find stocks where fear-driven language is declining even though '' @
     ''price hasn'' @
     [CHR 0xE2, CHR 0x80, CHR 0x99] @
     ''t moved yet.'',
   params = Some [],
   required_params = None\<rparr>"

definition analysis_market_15 :: analysis where
  "analysis_market_15 = \<lparr>
   ident = IdStr ''15'',
   name = ''Macro-to-Micro Translation'',
   prompt_template =
     ''Translate current macro events into specific stocks that might '' @
     ''benefit before the connection becomes obvious.'',
   params = Some [],
   required_params = None\<rparr>"

definition analysis_market_16 :: analysis where
  "analysis_market_16 = \<lparr>
   ident = IdStr ''16'',
   name = ''Management Credibility Signal'',
   prompt_template =
     ''Analyze CEO or CFO posts for changes in tone, confidence, or '' @
     ''specificity over time.'',
   params = Some [],
   required_params = None\<rparr>"

definition analysis_market_17 :: analysis where
  "analysis_market_17 = \<lparr>
   ident = IdStr ''17'',
   name = ''Early Meme Formation Detector'',
   prompt_template =
     ''Identify stocks transitioning from serious discussion to early '' @
     ''meme language but still low market cap.'',
   params = Some [],
   required_params = None\<rparr>"

definition analysis_market_18 :: analysis where
  "analysis_market_18 = \<lparr>
   ident = IdStr ''18'',
   name = ''Regulatory Tailwind Radar'',
   prompt_template =
     ''Scan policy, legal, or regulatory discussions on X that could '' @
     ''quietly favor specific companies.'',
   params = Some [],
   required_params = None\<rparr>"

definition analysis_market_19 :: analysis where
  "analysis_market_19 = \<lparr>
   ident = IdStr ''19'',
   name = ''Global Edge Finder'',
   prompt_template =
     ''Track non-US accounts discussing US stocks before US traders '' @
     ''notice.'',
   params = Some [],
   required_params = None\<rparr>"

definition analysis_market_20 :: analysis where
  "analysis_market_20 = \<lparr>
   ident = IdStr ''20'',
   name = ''Future Price Path Simulation'',
   prompt_template =
     ''Based on current sentiment, narratives, and catalysts, simulate '' @
     ''3 possible price paths for '' @
     ''{stock}'' @
     ''}'' @
     '' over the next 3'' @
     [CHR 0xE2, CHR 0x80, CHR 0x93] @
     ''6 months.'',
   params = Some [''stock''],
   required_params = None\<rparr>"

definition ANALYSES_market :: "analysis list" where
  "ANALYSES_market =
    [analysis_market_1, analysis_market_2, analysis_market_3, analysis_market_4,
     analysis_market_5, analysis_market_6, analysis_market_7, analysis_market_8,
     analysis_market_9, analysis_market_10, analysis_market_11, analysis_market_12,
     analysis_market_13, analysis_market_14, analysis_market_15, analysis_market_16,
     analysis_market_17, analysis_market_18, analysis_market_19, analysis_market_20]"

subsection \<open>The catalog of src/stock_and_sector_research.py\<close>

definition analysis_sector_1 :: analysis where
  "analysis_sector_1 = \<lparr>
   ident = IdStr ''1'',
   name = ''Real-Time stock sentiment'',
   prompt_template =
     ''Search X (Twitter) for the latest discussions about '' @
     ''{stock}'' @
     '' and analyze the sentiment. Focus on actionable insights, not '' @
     ''noise.Based on what you find, provide: Overall sentiment (bullish/neutral/bearish) '' @
     ''Key themes and narratives emerging Notable investors or analysts '' @
     ''discussing it Any breaking news or catalysts mentioned Shift '' @
     ''in sentiment compared to last week Retail vs. institutional '' @
     ''sentiment indicators Hype level assessment (organic vs. pump) '' @
     ''Momentum prediction: Building or fading?'',
   params = Some [''stock''],
   required_params = None\<rparr>"

definition analysis_sector_2 :: analysis where
  "analysis_sector_2 = \<lparr>
   ident = IdStr ''2'',
   name = ''Analyze current discussions on X about emerging trends in sector'',
   prompt_template =
     ''Analyze current discussions on X about emerging trends in '' @
     ''{sector}'' @
     ''. Sector: '' @
     ''{sector}'' @
     '' Focus: '' @
     ''{capfocus}'' @
     '' Identify: 1. What trends are gaining traction right now 2. '' @
     ''Stocks being mentioned repeatedly 3. New products, technologies, '' @
     ''or catalysts 4. Sentiment shift patterns 5. Early-stage companies '' @
     ''getting attention 6. Comparison to mainstream media coverage '' @
     ''(are we early?) 7. Key opinion leaders driving the narrative '' @
     ''8. Stocks positioned to benefit most Show me what'' @
     [CHR 0x27] @
     ''s trending NOW, not last quarter.'',
   params = None,
   required_params = Some [''sector'', ''capfocus'']\<rparr>"

definition analysis_sector_3 :: analysis where
  "analysis_sector_3 = \<lparr>
   ident = IdStr ''3'',
   name = ''Track Smart Money and Influencer Moves'',
   prompt_template =
     ''Search X for recent activity from notable investors regarding '' @
     ''{sector}'' @
     ''.'',
   params = Some [''sector''],
   required_params = None\<rparr>"

definition analysis_sector_4 :: analysis where
  "analysis_sector_4 = \<lparr>
   ident = IdStr ''4'',
   name = ''Identify Stocks with Viral Momentum'',
   prompt_template =
     ''Search X for stocks that are gaining viral momentum right now. '' @
     ''Criteria: - Sudden spike in mentions - Increasing engagement '' @
     ''on posts - Multiple accounts discussing simultaneously - Market '' @
     ''cap: [your preference] For each stock gaining traction, analyze: '' @
     ''1. Why it'' @
     [CHR 0x27] @
     ''s trending (catalyst, news, hype?) 2. Quality of the narrative '' @
     ''(substance vs. pump) 3. Who'' @
     [CHR 0x27] @
     ''s driving the conversation 4. Fundamental backing (does it deserve '' @
     ''attention?) 5. Risk of being too late 6. Historical pattern '' @
     ''(does viral = gains for this stock?) 7. Entry/exit strategy '' @
     ''if momentum is real 8. Red flags suggesting pump and dump Separate '' @
     ''real opportunities from noise.'',
   params = None,
   required_params = Some []\<rparr>"

definition analysis_sector_5 :: analysis where
  "analysis_sector_5 = \<lparr>
   ident = IdStr ''5'',
   name = ''Monitor Breaking News and Catalysts'',
   prompt_template =
     ''Search X for breaking news and catalysts related to '' @
     ''{stock}'' @
     '' in the last 24 hours.'',
   params = Some [''stock''],
   required_params = None\<rparr>"

definition analysis_sector_6 :: analysis where
  "analysis_sector_6 = \<lparr>
   ident = IdStr ''6'',
   name = ''Gauge Retail vs. Institutional Sentiment'',
   prompt_template =
     ''Analyze the difference between retail and institutional sentiment '' @
     ''for '' @
     ''{stock}'' @
     '' based on X.'',
   params = Some [''stock''],
   required_params = None\<rparr>"

definition analysis_sector_7 :: analysis where
  "analysis_sector_7 = \<lparr>
   ident = IdStr ''7'',
   name = ''Detect Early Warning Signs and Red Flags'',
   prompt_template =
     ''Search X for red flags, concerns, or negative sentiment about '' @
     ''{stock}'' @
     ''.'',
   params = Some [''stock''],
   required_params = None\<rparr>"

definition analysis_sector_8 :: analysis where
  "analysis_sector_8 = \<lparr>
   ident = IdStr ''8'',
   name = ''Create a Real-Time Watchlist Strategy'',
   prompt_template =
     ''Help me build a system to monitor stocks on X for trading opportunities. '' @
     ''My focus: day trading Sectors: '' @
     ''{sector}'' @
     '' Risk tolerance: '' @
     ''{risk}'' @
     '' Create a framework for: 1. Which accounts and hashtags to monitor '' @
     ''daily 2. Sentiment indicators that signal buy/sell 3. How to '' @
     ''filter noise from actionable signals 4. Tools and search strategies '' @
     ''for X 5. How to validate X sentiment with fundamentals 6. Entry '' @
     ''and exit triggers based on momentum 7. Risk management when '' @
     ''trading on sentiment 8. Daily routine to stay ahead of the market '' @
     ''Make it systematic and repeatable.'',
   params = None,
   required_params = Some [''sector'', ''risk'']\<rparr>"

definition analysis_sector_9 :: analysis where
  "analysis_sector_9 = \<lparr>
   ident = IdInt 9,
   name = ''Recent Activity by Sector'',
   prompt_template =
     ''Search X for recent activity from notable investors and analysts '' @
     ''regarding '' @
     ''{sector}'' @
     '' Focus on: Prominent investors (e.g., [specific names if known]) '' @
     ''Verified analysts and researchers Hedge fund managers with public '' @
     ''presence Analyze: 1. What stocks they'' @
     [CHR 0x27] @
     ''re discussing or buying 2. Their thesis and reasoning 3. Timing '' @
     ''of their posts (recent accumulation?) 4. Engagement and agreement '' @
     ''from others 5. Contrarian vs. consensus views 6. Track record '' @
     ''of their past calls 7. Any disclosed positions or conflicts '' @
     ''8. Should I follow this move? Why or why not? Help me follow '' @
     ''smart money in real-time.'',
   params = None,
   required_params = Some [''sector'']\<rparr>"

definition ANALYSES_sector :: "analysis list" where
  "ANALYSES_sector =
    [analysis_sector_1, analysis_sector_2, analysis_sector_3, analysis_sector_4,
     analysis_sector_5, analysis_sector_6, analysis_sector_7, analysis_sector_8,
     analysis_sector_9]"

subsection \<open>The catalog of src/ResearchEngine/stock_and_market_research.py\<close>

definition analysis_engine_1 :: analysis where
  "analysis_engine_1 = \<lparr>
   ident = IdStr ''1'',
   name = ''Real-Time stock sentiment'',
   prompt_template =
     ''Search X (Twitter) for the latest discussions about '' @
     ''{stock}'' @
     '' and analyze the sentiment. Focus on actionable insights, not '' @
     ''noise.Based on what you find, provide: Overall sentiment (bullish/neutral/bearish) '' @
     ''Key themes and narratives emerging Notable investors or analysts '' @
     ''discussing it Any breaking news or catalysts mentioned Shift '' @
     ''in sentiment compared to last week Retail vs. institutional '' @
     ''sentiment indicators Hype level assessment (organic vs. pump) '' @
     ''Momentum prediction: Building or fading?'',
   params = Some [''stock''],
   required_params = None\<rparr>"

definition analysis_engine_2 :: analysis where
  "analysis_engine_2 = \<lparr>
   ident = IdStr ''2'',
   name = ''Sudden Attention Spike Detector'',
   prompt_template =
     ''Find stocks that saw a sudden spike in mentions on X in the '' @
     ''last 12 hours, excluding major news outlets. Focus on organic '' @
     ''chatter, not headlines.'',
   params = Some [],
   required_params = None\<rparr>"

definition analysis_engine_3 :: analysis where
  "analysis_engine_3 = \<lparr>
   ident = IdStr ''3'',
   name = ''Retail Before Institutions'',
   prompt_template =
     ''Identify stocks where retail traders are accumulating before '' @
     ''any analyst upgrades or institutional reports.'',
   params = Some [],
   required_params = None\<rparr>"

definition analysis_engine_4 :: analysis where
  "analysis_engine_4 = \<lparr>
   ident = IdStr ''4'',
   name = ''Narrative Change Tracker'',
   prompt_template =
     ''Track how the narrative around '' @
     ''{stock}'' @
     '' has changed over the last 30 days.What are people saying now '' @
     ''that they weren'' @
     [CHR 0xE2, CHR 0x80, CHR 0x99] @
     ''t saying before?'',
   params = Some [''stock''],
   required_params = None\<rparr>"

definition analysis_engine_5 :: analysis where
  "analysis_engine_5 = \<lparr>
   ident = IdStr ''5'',
   name = ''Influencer Accumulation Signal'',
   prompt_template =
     ''Detect when respected traders, operators, or domain experts '' @
     ''start mentioning a stock repeatedly without hyping it.'',
   params = Some [],
   required_params = None\<rparr>"

definition analysis_engine_6 :: analysis where
  "analysis_engine_6 = \<lparr>
   ident = IdStr ''6'',
   name = ''Bear-to-Bull Flip Alert'',
   prompt_template =
     ''Find stocks where historically bearish accounts recently turned '' @
     ''neutral or bullish.Highlight exact language changes.'',
   params = Some [''sector'', ''risk''],
   required_params = None\<rparr>"

definition analysis_engine_7 :: analysis where
  "analysis_engine_7 = \<lparr>
   ident = IdStr ''7'',
   name = ''Hidden Catalyst Discovery'',
   prompt_template =
     ''Scan X for subtle mentions of upcoming catalysts (contracts, '' @
     ''regulation changes, pilots, partnerships) that are not in mainstream '' @
     ''news.'',
   params = Some [],
   required_params = None\<rparr>"

definition analysis_engine_8 :: analysis where
  "analysis_engine_8 = \<lparr>
   ident = IdStr ''8'',
   name = ''Insider Language Pattern Scan'',
   prompt_template =
     ''Analyze posts from employees, ex-employees, or contractors casually '' @
     ''referencing their companys momentum or workload.'',
   params = Some [],
   required_params = None\<rparr>"

definition analysis_engine_9 :: analysis where
  "analysis_engine_9 = \<lparr>
   ident = IdStr ''9'',
   name = ''Volume Without News'',
   prompt_template =
     ''Identify stocks with unusual trading volume today but no major '' @
     ''news.Cross-check with X sentiment for possible early explanations.'',
   params = Some [],
   required_params = None\<rparr>"

definition analysis_engine_10 :: analysis where
  "analysis_engine_10 = \<lparr>
   ident = IdStr ''10'',
   name = ''Sector Rotation Early Signal'',
   prompt_template =
     ''Detect early chatter suggesting capital rotating into a specific '' @
     ''sector before ETFs or analysts mention it.Rotations start on '' @
     ''X, not Bloomberg.'',
   params = Some [],
   required_params = None\<rparr>"

definition analysis_engine_11 :: analysis where
  "analysis_engine_11 = \<lparr>
   ident = IdStr ''11'',
   name = ''Earnings Whisper Analysis'',
   prompt_template =
     ''Analyze pre-earnings discussions on X to extract '' @
     [CHR 0xE2, CHR 0x80, CHR 0x98] @
     ''whisper numbers'' @
     [CHR 0xE2, CHR 0x80, CHR 0x99] @
     '' and expectations versus consensus.'',
   params = Some [],
   required_params = None\<rparr>"

definition analysis_engine_12 :: analysis where
  "analysis_engine_12 = \<lparr>
   ident = IdStr ''12'',
   name = ''Crowded Trade Exit Signal'',
   prompt_template =
     ''Find stocks where bullish sentiment is becoming repetitive, '' @
     ''meme-like, or overly confident.'',
   params = Some [],
   required_params = None\<rparr>"

definition analysis_engine_13 :: analysis where
  "analysis_engine_13 = \<lparr>
   ident = IdStr ''13'',
   name = ''Small-Cap Smart Money Trail'',
   prompt_template =
     ''Identify small-cap stocks being discussed by hedge fund analysts, '' @
     ''ex-bankers, or finance PhDs on X.'',
   params = Some [],
   required_params = None\<rparr>"

definition analysis_engine_14 :: analysis where
  "analysis_engine_14 = \<lparr>
   ident = IdStr ''14'',
   name = ''Fear Compression Scan'',
   prompt_template =
     ''Find stocks where fear-driven language is declining even though '' @
     ''price hasn'' @
     [CHR 0xE2, CHR 0x80, CHR 0x99] @
     ''t moved yet.'',
   params = Some [],
   required_params = None\<rparr>"

definition analysis_engine_15 :: analysis where
  "analysis_engine_15 = \<lparr>
   ident = IdStr ''15'',
   name = ''Macro-to-Micro Translation'',
   prompt_template =
     ''Translate current macro events into specific stocks that might '' @
     ''benefit before the connection becomes obvious.'',
   params = Some [],
   required_params = None\<rparr>"

definition analysis_engine_16 :: analysis where
  "analysis_engine_16 = \<lparr>
   ident = IdStr ''16'',
   name = ''Management Credibility Signal'',
   prompt_template =
     ''Analyze CEO or CFO posts for changes in tone, confidence, or '' @
     ''specificity over time.'',
   params = Some [],
   required_params = None\<rparr>"

definition analysis_engine_17 :: analysis where
  "analysis_engine_17 = \<lparr>
   ident = IdStr ''17'',
   name = ''Early Meme Formation Detector'',
   prompt_template =
     ''Identify stocks transitioning from serious discussion to early '' @
     ''meme language but still low market cap.'',
   params = Some [],
   required_params = None\<rparr>"

definition analysis_engine_18 :: analysis where
  "analysis_engine_18 = \<lparr>
   ident = IdStr ''18'',
   name = ''Regulatory Tailwind Radar'',
   prompt_template =
     ''Scan policy, legal, or regulatory discussions on X that could '' @
     ''quietly favor specific companies.'',
   params = Some [],
   required_params = None\<rparr>"

definition analysis_engine_19 :: analysis where
  "analysis_engine_19 = \<lparr>
   ident = IdStr ''19'',
   name = ''Global Edge Finder'',
   prompt_template =
     ''Track non-US accounts discussing US stocks before US traders '' @
     ''notice.'',
   params = Some [],
   required_params = None\<rparr>"

definition analysis_engine_20 :: analysis where
  "analysis_engine_20 = \<lparr>
   ident = IdStr ''20'',
   name = ''Future Price Path Simulation'',
   prompt_template =
     ''Based on current sentiment, narratives, and catalysts, simulate '' @
     ''3 possible price paths for '' @
     ''{stock}'' @
     '' over the next 3'' @
     [CHR 0xE2, CHR 0x80, CHR 0x93] @
     ''6 months.'',
   params = Some [''stock''],
   required_params = None\<rparr>"

definition analysis_engine_21 :: analysis where
  "analysis_engine_21 = \<lparr>
   ident = IdStr ''21'',
   name = ''Analyze current discussions on X about emerging trends in sector'',
   prompt_template =
     ''Analyze current discussions on X about emerging trends in '' @
     ''{sector}'' @
     ''. Sector: '' @
     ''{sector}'' @
     '' Focus: '' @
     ''{capfocus}'' @
     '' Identify: 1. What trends are gaining traction right now 2. '' @
     ''Stocks being mentioned repeatedly 3. New products, technologies, '' @
     ''or catalysts 4. Sentiment shift patterns 5. Early-stage companies '' @
     ''getting attention 6. Comparison to mainstream media coverage '' @
     ''(are we early?) 7. Key opinion leaders driving the narrative '' @
     ''8. Stocks positioned to benefit most Show me what'' @
     [CHR 0x27] @
     ''s trending NOW, not last quarter.'',
   params = Some [''sector'', ''capfocus''],
   required_params = None\<rparr>"

definition analysis_engine_22 :: analysis where
  "analysis_engine_22 = \<lparr>
   ident = IdStr ''22'',
   name = ''Identify Stocks with Viral Momentum'',
   prompt_template =
     ''Search X for stocks that are gaining viral momentum right now. '' @
     ''Focus: '' @
     ''{capfocus}'' @
     '' Criteria: - Sudden spike in mentions - Increasing engagement '' @
     ''on posts - Multiple accounts discussing simultaneously - Market '' @
     ''cap: [your preference] For each stock gaining traction, analyze: '' @
     ''1. Why it'' @
     [CHR 0x27] @
     ''s trending (catalyst, news, hype?) 2. Quality of the narrative '' @
     ''(substance vs. pump) 3. Who'' @
     [CHR 0x27] @
     ''s driving the conversation 4. Fundamental backing (does it deserve '' @
     ''attention?) 5. Risk of being too late 6. Historical pattern '' @
     ''(does viral = gains for this stock?) 7. Entry/exit strategy '' @
     ''if momentum is real 8. Red flags suggesting pump and dump Separate '' @
     ''real opportunities from noise.'',
   params = Some [''capfocus''],
   required_params = None\<rparr>"

definition analysis_engine_23 :: analysis where
  "analysis_engine_23 = \<lparr>
   ident = IdStr ''23'',
   name = ''Monitor Breaking News and Catalysts'',
   prompt_template =
     ''Search X for breaking news and catalysts related to '' @
     ''{stock}'' @
     '' in the last 24 hours.Focus on actionable insights, not noise.Based '' @
     ''on what you find, provide: Overall sentiment (bullish/neutral/bearish) '' @
     ''Key themes and narratives emerging Notable investors or analysts '' @
     ''discussing it Any breaking news or catalysts mentioned Shift '' @
     ''in sentiment compared to last week Retail vs. institutional '' @
     ''sentiment indicators Hype level assessment (organic vs. pump) '' @
     ''Momentum prediction: Building or fading?'',
   params = Some [''stock''],
   required_params = None\<rparr>"

definition analysis_engine_24 :: analysis where
  "analysis_engine_24 = \<lparr>
   ident = IdStr ''24'',
   name = ''Gauge Retail vs. Institutional Sentiment'',
   prompt_template =
     ''Analyze the difference between retail and institutional sentiment '' @
     ''for '' @
     ''{stock}'' @
     '' based on X.'',
   params = Some [''stock''],
   required_params = None\<rparr>"

definition analysis_engine_25 :: analysis where
  "analysis_engine_25 = \<lparr>
   ident = IdStr ''25'',
   name = ''Detect Early Warning Signs and Red Flags'',
   prompt_template =
     ''Search X for red flags, concerns, or negative sentiment about '' @
     ''{stock}'' @
     ''.'',
   params = Some [''stock''],
   required_params = None\<rparr>"

definition analysis_engine_26 :: analysis where
  "analysis_engine_26 = \<lparr>
   ident = IdStr ''26'',
   name = ''Create a Real-Time Watchlist Strategy'',
   prompt_template =
     ''Help me build a system to monitor stocks on X for trading opportunities. '' @
     ''My focus: day trading Sectors: '' @
     ''{sector}'' @
     '' Risk tolerance: '' @
     ''{risk}'' @
     '' Focus: '' @
     ''{capfocus}'' @
     '' Create a framework for: 1. Which accounts and hashtags to monitor '' @
     ''daily 2. Sentiment indicators that signal buy/sell 3. How to '' @
     ''filter noise from actionable signals 4. Tools and search strategies '' @
     ''for X 5. How to validate X sentiment with fundamentals 6. Entry '' @
     ''and exit triggers based on momentum 7. Risk management when '' @
     ''trading on sentiment 8. Daily routine to stay ahead of the market '' @
     ''Make it systematic and repeatable.'',
   params = Some [''sector'', ''risk'', ''capfocus''],
   required_params = None\<rparr>"

definition analysis_engine_27 :: analysis where
  "analysis_engine_27 = \<lparr>
   ident = IdInt 27,
   name = ''Recent Activity by Sector'',
   prompt_template =
     ''Search X for recent activity from notable investors and analysts '' @
     ''regarding '' @
     ''{sector}'' @
     '' Focus on: Prominent investors (e.g., [specific names if known]) '' @
     ''Verified analysts and researchers Hedge fund managers with public '' @
     ''presence Analyze: 1. What stocks they'' @
     [CHR 0x27] @
     ''re discussing or buying 2. Their thesis and reasoning 3. Timing '' @
     ''of their posts (recent accumulation?) 4. Engagement and agreement '' @
     ''from others 5. Contrarian vs. consensus views 6. Track record '' @
     ''of their past calls 7. Any disclosed positions or conflicts '' @
     ''8. Should I follow this move? Why or why not? Help me follow '' @
     ''smart money in real-time.'',
   params = Some [''sector''],
   required_params = None\<rparr>"

definition analysis_engine_28 :: analysis where
  "analysis_engine_28 = \<lparr>
   ident = IdInt 28,
   name = ''Why is this stock moving'',
   prompt_template =
     ''Analyze the main drivers behind '' @
     ''{stock}'' @
     [CHR 0x27] @
     ''s price action since [specific time/date or '' @
     [CHR 0x27] @
     ''market open today'' @
     [CHR 0x27] @
     '']. Focus especially on:Categorize and roughly weight the drivers '' @
     ''as:Fundamental news / earnings surprise / guidance change (weight '' @
     ''%)Analyst upgrades/downgrades / price target changesTechnical '' @
     ''/ momentum factorsMacro / interest rate / commodity / FX crossover '' @
     ''effectsSentiment / flow / positioning (institutional, retail, '' @
     ''options gamma)Idiosyncratic (M&A rumor, legal, product launch, '' @
     ''etc.)End with your best judgment of whether the current move '' @
     ''looks sustainable or likely to reverse in the short term, and '' @
     ''why.'',
   params = Some [''stock''],
   required_params = None\<rparr>"

definition analysis_engine_29 :: analysis where
  "analysis_engine_29 = \<lparr>
   ident = IdStr ''29'',
   name = ''Generate a Real-Time Watchlist by Risk Level for Stocks Under '' @
     ''$10'',
   prompt_template =
     ''Search X and use web search to create a real-time watchlist '' @
     ''of stocks currently trading under $10 that are suitable for '' @
     ''day trading or short-term momentum plays. Focus on low-priced '' @
     ''stocks (under $10/share) with potential for volatility, volume '' @
     ''spikes, or emerging buzz. Use up-to-date market information '' @
     ''as of today. Prioritize stocks that show: - High relative volume '' @
     ''or unusual volume surges - Recent price momentum (e.g., big '' @
     ''% moves in the last 1 to 5 days) - Positive chatter, catalysts, '' @
     ''or hype on X/Twitter, Reddit, or financial news Only include '' @
     ''stocks where the key risk level matches the user'' @
     [CHR 0x27] @
     ''s risk tolerance: '' @
     ''{risk}'' @
     '' (e.g., if '' @
     ''{risk}'' @
     '' is '' @
     [CHR 0x27] @
     ''medium'' @
     [CHR 0x27] @
     '', filter for medium-risk stocks only). Define risk levels as: '' @
     ''Low (stable with low volatility), Medium (moderate volatility '' @
     ''and some uncertainty), High (high volatility, speculative, or '' @
     ''significant downside potential). For each stock in the watchlist '' @
     ''(aim for 8 to 15 tickers that fit the risk filter), include: '' @
     ''1. Ticker symbol and company name 2. Current price (approximate, '' @
     ''under $10) 3. Today'' @
     [CHR 0x27] @
     ''s % change and volume vs average 4. Why it'' @
     [CHR 0x27] @
     ''s on the watchlist (e.g., recent catalyst, X mentions, sector '' @
     ''heat, technical breakout) 5. Key risk level (must match '' @
     ''{risk}'' @
     '') 6. Suggested watch levels (e.g., breakout above X, support '' @
     ''at Y) Structure the output as a clean markdown table or bulleted '' @
     ''list for easy scanning. At the end, explain your screening criteria '' @
     ''and any sources/tools you used to compile this real-time list. '' @
     ''Remind that this is not financial advice '' @
     [CHR 0xE2, CHR 0x80, CHR 0x94] @
     '' always do your own due diligence, use level 2/data, and manage '' @
     ''risk tightly on sub-$10 names.'',
   params = Some [''risk''],
   required_params = None\<rparr>"

definition ANALYSES_engine :: "analysis list" where
  "ANALYSES_engine =
    [analysis_engine_1, analysis_engine_2, analysis_engine_3, analysis_engine_4,
     analysis_engine_5, analysis_engine_6, analysis_engine_7, analysis_engine_8,
     analysis_engine_9, analysis_engine_10, analysis_engine_11, analysis_engine_12,
     analysis_engine_13, analysis_engine_14, analysis_engine_15, analysis_engine_16,
     analysis_engine_17, analysis_engine_18, analysis_engine_19, analysis_engine_20,
     analysis_engine_21, analysis_engine_22, analysis_engine_23, analysis_engine_24,
     analysis_engine_25, analysis_engine_26, analysis_engine_27, analysis_engine_28,
     analysis_engine_29]"

text \<open>The catalogs of the four programs.\<close>

definition catalogs :: "analysis list list" where
  "catalogs = [ANALYSES_catch_trends, ANALYSES_market, ANALYSES_sector, ANALYSES_engine]"

section \<open>The dispatcher \<open>perform_analysis\<close>\<close>

text \<open>
  The outside world of one run: the credential read from the process environment at
  start-up, and what the model service does. \<open>Client(...)\<close> and \<open>chat.create(...)\<close>
  either raise or return; \<open>chat.stream()\<close> delivers the contents of its chunks and
  then either ends or raises. \<open>exn_str\<close> and \<open>format_exc\<close> are Python's renderings
  \<open>str(e)\<close> and \<open>traceback.format_exc()\<close> of an exception, and \<open>unicode_upper\<close>
  is \<open>str.upper\<close> on text with characters outside ASCII.
\<close>

datatype role = System | User

datatype call =
    Client string nat
  | Chat_create string "string list"
  | Chat_stream "(role \<times> string) list"

record env =
  xai_api_key :: "string option"
  client_init :: "py_exn option"
  chat_create :: "py_exn option"
  chat_stream :: "(role \<times> string) list \<Rightarrow> string list \<times> py_exn option"
  exn_str :: "py_exn \<Rightarrow> string"
  format_exc :: "py_exn \<Rightarrow> string"
  unicode_upper :: "string \<Rightarrow> string"

text \<open>
  A run of the generator, consumed to its end: the values it yields, the calls it
  makes on the service, and the exception that leaves it, if any.
\<close>

record run =
  yields :: "string list"
  calls :: "call list"
  raised :: "py_exn option"

definition key_missing_message :: string where
  "key_missing_message =
     ''### '' @ [CHR 0xE2, CHR 0x9A, CHR 0xA0, CHR 0xEF, CHR 0xB8, CHR 0x8F] @ '' Error'' @
     [CHR 0x0A, CHR 0x60] @ ''XAI_API_KEY'' @ [CHR 0x60] @
     '' not found in environment variables.''"

definition error_label :: string where
  "error_label = ''### '' @ [CHR 0xE2, CHR 0x9D, CHR 0x8C] @ '' Error''"

definition error_message :: "env \<Rightarrow> py_exn \<Rightarrow> string" where
  "error_message E e =
     error_label @ [CHR 0x0A] @ exn_str E e @
     [CHR 0x0A, CHR 0x0A, CHR 0x60, CHR 0x60, CHR 0x60, CHR 0x0A] @ format_exc E e @
     [CHR 0x0A, CHR 0x60, CHR 0x60, CHR 0x60]"

definition system_instruction :: string where
  "system_instruction =
     ''You are a senior equity analyst. Format your report for a clean display. '' @
     ''Use # for title, ## for sections, and Markdown TABLES for data comparison. '' @
     ''Bold ticker symbols like **$TSLA**.''"

text \<open>The keys of the dictionary \<open>format_params\<close>.\<close>

definition fixed_keys :: "string set" where
  "fixed_keys = {''stock'', ''sector'', ''capfocus'', ''risk''}"

definition format_params ::
  "env \<Rightarrow> string option \<Rightarrow> string option \<Rightarrow> string option \<Rightarrow> string option \<Rightarrow>
   (string \<rightharpoonup> string)" where
  "format_params E stock sector capfocus risk_level =
     [''stock'' \<mapsto> (case stock of
                      Some s \<Rightarrow> if s \<noteq> [] then upper (unicode_upper E) s else ''N/A''
                    | None \<Rightarrow> ''N/A''),
      ''sector'' \<mapsto> (case sector of Some s \<Rightarrow> if s \<noteq> [] then s else ''unspecified'' | None \<Rightarrow> ''unspecified''),
      ''capfocus'' \<mapsto> (case capfocus of Some s \<Rightarrow> if s \<noteq> [] then s else ''unspecified'' | None \<Rightarrow> ''unspecified''),
      ''risk'' \<mapsto> (case risk_level of Some s \<Rightarrow> if s \<noteq> [] then s else ''medium'' | None \<Rightarrow> ''medium'')]"

text \<open>
  The loop over the stream: a chunk with non-empty content is appended to
  \<open>full_text\<close>, and the whole of \<open>full_text\<close> is yielded.
\<close>

fun stream_loop :: "string \<Rightarrow> string list \<Rightarrow> string list" where
  "stream_loop full_text [] = []"
| "stream_loop full_text (content # chunks) =
     (if content \<noteq> [] then (full_text @ content) # stream_loop (full_text @ content) chunks
      else stream_loop full_text chunks)"

text \<open>
  The body of the \<open>try\<close> block: what it yields, the calls it makes, and the exception
  that ends it, if one does.
\<close>

definition try_body ::
  "env \<Rightarrow> string \<Rightarrow> analysis \<Rightarrow> (string \<rightharpoonup> string) \<Rightarrow> string list \<times> call list \<times> py_exn option" where
  "try_body E api_key selected kw =
     (case client_init E of
        Some e \<Rightarrow> ([], [Client api_key 300], Some e)
      | None \<Rightarrow>
         (case format (prompt_template selected) kw of
            Inl e \<Rightarrow> ([], [Client api_key 300], Some e)
          | Inr prompt \<Rightarrow>
             (case chat_create E of
                Some e \<Rightarrow>
                  ([], [Client api_key 300,
                        Chat_create ''grok-4-1-fast-reasoning'' [''web_search'', ''x_search'']],
                   Some e)
              | None \<Rightarrow>
                  (let messages = [(System, system_instruction), (User, prompt)];
                       (chunks, failure) = chat_stream E messages
                   in (stream_loop [] chunks,
                       [Client api_key 300,
                        Chat_create ''grok-4-1-fast-reasoning'' [''web_search'', ''x_search''],
                        Chat_stream messages],
                       failure)))))"

text \<open>
  \<open>except Exception as e\<close>: an exception deriving from \<open>Exception\<close> becomes one more
  yielded value; any other leaves the generator.
\<close>

definition except_Exception :: "env \<Rightarrow> string list \<times> call list \<times> py_exn option \<Rightarrow> run" where
  "except_Exception E body =
     (case body of
        (ys, cs, None) \<Rightarrow> \<lparr>yields = ys, calls = cs, raised = None\<rparr>
      | (ys, cs, Some e) \<Rightarrow>
          if is_Exception e then \<lparr>yields = ys @ [error_message E e], calls = cs, raised = None\<rparr>
          else \<lparr>yields = ys, calls = cs, raised = Some e\<rparr>)"

definition perform_analysis ::
  "analysis list \<Rightarrow> env \<Rightarrow> string option \<Rightarrow> string option \<Rightarrow> string option \<Rightarrow>
   string option \<Rightarrow> string option \<Rightarrow> run" where
  "perform_analysis ANALYSES E analysis_name stock sector capfocus risk_level =
     (case xai_api_key E of
        None \<Rightarrow> \<lparr>yields = [key_missing_message], calls = [], raised = None\<rparr>
      | Some api_key \<Rightarrow>
          if api_key = [] then \<lparr>yields = [key_missing_message], calls = [], raised = None\<rparr>
          else
            (case find (\<lambda>a. Some (name a) = analysis_name) ANALYSES of
               None \<Rightarrow> \<lparr>yields = [''Invalid Selection.''], calls = [], raised = None\<rparr>
             | Some selected \<Rightarrow>
                 except_Exception E
                   (try_body E api_key selected
                      (format_params E stock sector capfocus risk_level))))"

section \<open>The visibility helper \<open>update_visibility\<close>\<close>

text \<open>
  The four results are the \<open>visible\<close> flags of the stock, sector, cap-focus and risk
  inputs. \<open>selected["params"]\<close> raises \<open>KeyError\<close> when the entry has no such key.
\<close>

definition update_visibility :: "analysis list \<Rightarrow> string option \<Rightarrow> py_exn + bool list" where
  "update_visibility ANALYSES choice =
     (case (case find (\<lambda>a. Some (name a) = choice) ANALYSES of
              None \<Rightarrow> Inr []
            | Some selected \<Rightarrow>
                (case params selected of
                   None \<Rightarrow> Inl (KeyError ''params'')
                 | Some ps \<Rightarrow> Inr ps)) of
        Inl e \<Rightarrow> Inl e
      | Inr ps \<Rightarrow>
          Inr [''stock'' \<in> set ps, ''sector'' \<in> set ps, ''capfocus'' \<in> set ps, ''risk'' \<in> set ps])"

section \<open>The chart classifier\<close>

text \<open>
  The value returned by \<open>json.loads\<close>. The type of numbers is left open: the
  classifier only passes them on. An object is the list of its items in order;
  its keys are distinct, and a lookup takes the item with that key.
\<close>

datatype 'n json =
    JNull
  | JBool bool
  | JNum 'n
  | JStr string
  | JArr "'n json list"
  | JObj "(string \<times> 'n json) list"

text \<open>
  One call \<open>ax.plot([x1, x2], [y1, y2], linewidth=3)\<close> asks for a segment.
\<close>

record 'n segment =
  x1 :: "'n json"
  y1 :: "'n json"
  x2 :: "'n json"
  y2 :: "'n json"

text \<open>
  The outside world of the classifier: \<open>completion\<close> is the request to the vision
  service, from encoding the image up to reading
  \<open>response.choices[0].message.content\<close>, which may be \<open>None\<close>; \<open>json_loads\<close>
  is \<open>json.loads\<close> on a string. The other three are matplotlib:
  \<open>open_figure\<close> is \<open>plt.subplots\<close>, \<open>ax.imshow(image)\<close> and \<open>ax.axis("off")\<close>;
  \<open>ax_plot plotted seg\<close> is the call of \<open>ax.plot\<close> for \<open>seg\<close> on axes that
  already hold the segments \<open>plotted\<close>; \<open>render_figure\<close> is drawing the canvas and
  reading it back as an image. Each of them may raise.
\<close>

record ('img, 'n) vision =
  completion :: "'img \<Rightarrow> py_exn + string option"
  json_loads :: "string \<Rightarrow> py_exn + 'n json"
  open_figure :: "'img \<Rightarrow> py_exn option"
  ax_plot :: "'n segment list \<Rightarrow> 'n segment \<Rightarrow> py_exn option"
  render_figure :: "'img \<Rightarrow> 'n segment list \<Rightarrow> py_exn + 'img"

definition and_then :: "py_exn + 'a \<Rightarrow> ('a \<Rightarrow> py_exn + 'b) \<Rightarrow> py_exn + 'b" where
  "and_then r f = (case r of Inl e \<Rightarrow> Inl e | Inr v \<Rightarrow> f v)"

definition analyze_chart_with_openai :: "('img, 'n) vision \<Rightarrow> 'img \<Rightarrow> py_exn + 'n json" where
  "analyze_chart_with_openai V img =
     and_then (completion V img)
       (\<lambda>content. case content of
            None \<Rightarrow> Inl (TypeError ''the JSON object must be str, bytes or bytearray, not NoneType'')
          | Some s \<Rightarrow> json_loads V s)"

text \<open>The operations of Python that the drawing routine applies to a parsed value.\<close>

text \<open>\<open>key in v\<close>\<close>

fun py_in :: "string \<Rightarrow> 'n json \<Rightarrow> py_exn + bool" where
  "py_in key (JObj items) = Inr (key \<in> set (map fst items))"
| "py_in key (JArr vs) = Inr (JStr key \<in> set vs)"
| "py_in key (JStr s) = Inr (contains key s)"
| "py_in key v = Inl (TypeError ''argument is not iterable'')"

text \<open>\<open>v[key]\<close> with a string key\<close>

fun subscript :: "'n json \<Rightarrow> string \<Rightarrow> py_exn + 'n json" where
  "subscript (JObj items) key =
     (case map_of items key of None \<Rightarrow> Inl (KeyError key) | Some v \<Rightarrow> Inr v)"
| "subscript (JArr vs) key = Inl (TypeError ''list indices must be integers or slices, not str'')"
| "subscript (JStr s) key = Inl (TypeError ''string indices must be integers'')"
| "subscript v key = Inl (TypeError ''object is not subscriptable'')"

text \<open>\<open>v.get(key, default)\<close>: only a dictionary has the method.\<close>

fun py_get :: "'n json \<Rightarrow> string \<Rightarrow> 'n json \<Rightarrow> py_exn + 'n json" where
  "py_get (JObj items) key dflt =
     Inr (case map_of items key of None \<Rightarrow> dflt | Some v \<Rightarrow> v)"
| "py_get v key dflt = Inl (AttributeError ''get'')"

text \<open>
  \<open>for x in v\<close>: the elements of a list, the keys of a dictionary, the characters of
  a string (each a string of length one).
\<close>

fun iterate :: "'n json \<Rightarrow> py_exn + 'n json list" where
  "iterate (JArr vs) = Inr vs"
| "iterate (JObj items) = Inr (map (\<lambda>item. JStr (fst item)) items)"
| "iterate (JStr s) = Inr (map (\<lambda>c. JStr [c]) s)"
| "iterate v = Inl (TypeError ''object is not iterable'')"

text \<open>
  The loops of \<open>draw_annotations\<close>. The second argument holds the segments plotted
  so far; the result holds them followed by the new ones. A line is read as
  \<open>line["x1"]\<close>, \<open>line["x2"]\<close>, \<open>line["y1"]\<close>, \<open>line["y2"]\<close>, in this order, and
  then plotted.
\<close>

definition plot_line ::
  "('img, 'n) vision \<Rightarrow> 'n segment list \<Rightarrow> 'n json \<Rightarrow> py_exn + 'n segment" where
  "plot_line V plotted line =
     and_then (subscript line ''x1'') (\<lambda>a.
     and_then (subscript line ''x2'') (\<lambda>b.
     and_then (subscript line ''y1'') (\<lambda>c.
     and_then (subscript line ''y2'') (\<lambda>d.
       (case ax_plot V plotted \<lparr>x1 = a, y1 = c, x2 = b, y2 = d\<rparr> of
          Some e \<Rightarrow> Inl e
        | None \<Rightarrow> Inr \<lparr>x1 = a, y1 = c, x2 = b, y2 = d\<rparr>)))))"

fun plot_lines ::
  "('img, 'n) vision \<Rightarrow> 'n segment list \<Rightarrow> 'n json list \<Rightarrow> py_exn + 'n segment list" where
  "plot_lines V plotted [] = Inr plotted"
| "plot_lines V plotted (line # lines) =
     and_then (plot_line V plotted line) (\<lambda>seg. plot_lines V (plotted @ [seg]) lines)"

definition plot_pattern ::
  "('img, 'n) vision \<Rightarrow> 'n segment list \<Rightarrow> 'n json \<Rightarrow> py_exn + 'n segment list" where
  "plot_pattern V plotted pattern =
     and_then (py_get pattern ''trendlines'' (JArr [])) (\<lambda>trendlines.
     and_then (iterate trendlines) (plot_lines V plotted))"

fun plot_patterns ::
  "('img, 'n) vision \<Rightarrow> 'n segment list \<Rightarrow> 'n json list \<Rightarrow> py_exn + 'n segment list" where
  "plot_patterns V plotted [] = Inr plotted"
| "plot_patterns V plotted (pattern # patterns) =
     and_then (plot_pattern V plotted pattern) (\<lambda>now. plot_patterns V now patterns)"

definition draw_annotations :: "('img, 'n) vision \<Rightarrow> 'img \<Rightarrow> 'n json \<Rightarrow> py_exn + 'img" where
  "draw_annotations V img analysis_json =
     (case open_figure V img of
        Some e \<Rightarrow> Inl e
      | None \<Rightarrow>
          and_then (py_in ''patterns'' analysis_json) (\<lambda>present.
          and_then
            (if present then
               and_then (subscript analysis_json ''patterns'') (\<lambda>patterns.
               and_then (iterate patterns) (plot_patterns V []))
             else Inr [])
            (render_figure V img)))"

definition process_image :: "('img, 'n) vision \<Rightarrow> 'img \<Rightarrow> py_exn + 'n json \<times> 'img" where
  "process_image V img =
     and_then (analyze_chart_with_openai V img) (\<lambda>analysis.
     and_then (draw_annotations V img analysis) (\<lambda>annotated_image.
     and_then (py_get analysis ''analysis'' (JStr ''No analysis returned.'')) (\<lambda>explanation.
       Inr (explanation, annotated_image))))"

text \<open>
  The segments a reply asks for, when \<open>patterns\<close>, if present, is a list of objects,
  and \<open>trendlines\<close>, if present in a pattern, is a list of objects that each have the
  four coordinates. A missing \<open>patterns\<close> or \<open>trendlines\<close> counts as the empty list.
\<close>

definition listed :: "string \<Rightarrow> (string \<times> 'n json) list \<Rightarrow> 'n json list option" where
  "listed key items =
     (case map_of items key of
        None \<Rightarrow> Some []
      | Some (JArr vs) \<Rightarrow> Some vs
      | Some _ \<Rightarrow> None)"

definition line_segment :: "'n json \<Rightarrow> 'n segment option" where
  "line_segment line =
     (case line of
        JObj items \<Rightarrow>
          (case (map_of items ''x1'', map_of items ''x2'', map_of items ''y1'', map_of items ''y2'') of
             (Some a, Some b, Some c, Some d) \<Rightarrow> Some \<lparr>x1 = a, y1 = c, x2 = b, y2 = d\<rparr>
           | _ \<Rightarrow> None)
      | _ \<Rightarrow> None)"

definition pattern_segments :: "'n json \<Rightarrow> 'n segment list option" where
  "pattern_segments pattern =
     (case pattern of
        JObj items \<Rightarrow>
          (case listed ''trendlines'' items of
             None \<Rightarrow> None
           | Some lines \<Rightarrow> those (map line_segment lines))
      | _ \<Rightarrow> None)"

definition reply_segments :: "(string \<times> 'n json) list \<Rightarrow> 'n segment list option" where
  "reply_segments items =
     (case listed ''patterns'' items of
        None \<Rightarrow> None
      | Some patterns \<Rightarrow> map_option concat (those (map pattern_segments patterns)))"

text \<open>\<open>ax.plot\<close> accepts the segments one after the other.\<close>

fun accepted :: "('img, 'n) vision \<Rightarrow> 'n segment list \<Rightarrow> 'n segment list \<Rightarrow> bool" where
  "accepted V plotted [] = True"
| "accepted V plotted (seg # segs) =
     (ax_plot V plotted seg = None \<and> accepted V (plotted @ [seg]) segs)"

section \<open>Sample environments and replies\<close>

text \<open>
  A service that answers with three chunks, the second of them empty; the same
  service failing after its first chunk; and a process without the credential.
  The samples are used with ASCII text only, where \<open>unicode_upper\<close> is not
  consulted.
\<close>

fun sample_str :: "py_exn \<Rightarrow> string" where
  "sample_str (KeyError k) = [CHR 0x27] @ k @ [CHR 0x27]"
| "sample_str (ValueError m) = m"
| "sample_str (IndexError m) = m"
| "sample_str (TypeError m) = m"
| "sample_str (AttributeError m) = m"
| "sample_str (JSONDecodeError m) = m"
| "sample_str (ServiceError m) = m"
| "sample_str (Interrupt m) = m"
| "sample_str Unmodelled = []"

definition sample_env :: env where
  "sample_env =
     \<lparr>xai_api_key = Some ''xai-key'',
      client_init = None,
      chat_create = None,
      chat_stream = (\<lambda>messages. ([''# Report'', [], '' on TSLA''], None)),
      exn_str = sample_str,
      format_exc = (\<lambda>e. ''Traceback (most recent call last):''),
      unicode_upper = (\<lambda>s. s)\<rparr>"


definition no_key_env :: env where
  "no_key_env = sample_env\<lparr>xai_api_key := None\<rparr>"

text \<open>
  A vision service with a \<open>json.loads\<close> that knows four replies and rejects every
  other text, and a matplotlib that plots numbers only: a reply with one pattern and
  one trendline, the empty object, a reply whose trendline lacks \<open>x1\<close>, and a reply
  whose \<open>x1\<close> is a list. An annotated picture shows the picture it was drawn on
  and the segments drawn.
\<close>

datatype picture = Chart | Annotated picture "int segment list"

definition sample_reply :: "int json" where
  "sample_reply =
     JObj [(''analysis'', JStr ''Falling wedge.''),
           (''patterns'',
            JArr [JObj [(''name'', JStr ''Falling Wedge''),
                        (''breakout_bias'', JStr ''bullish''),
                        (''trendlines'',
                         JArr [JObj [(''x1'', JNum 100), (''y1'', JNum 200),
                                     (''x2'', JNum 400), (''y2'', JNum 150)]])]])]"

definition incomplete_reply :: "int json" where
  "incomplete_reply =
     JObj [(''patterns'', JArr [JObj [(''trendlines'', JArr [JObj [(''x2'', JNum 400)]])]])]"

definition list_reply :: "int json" where
  "list_reply =
     JObj [(''patterns'',
            JArr [JObj [(''trendlines'',
                        JArr [JObj [(''x1'', JArr [JNum 1, JNum 2]), (''y1'', JNum 200),
                                    (''x2'', JNum 400), (''y2'', JNum 150)]])]])]"

definition sample_loads :: "string \<Rightarrow> py_exn + int json" where
  "sample_loads s =
     (if s = ''{}'' then Inr (JObj [])
      else if s = ''sample'' then Inr sample_reply
      else if s = ''incomplete'' then Inr incomplete_reply
      else if s = ''list'' then Inr list_reply
      else Inl (JSONDecodeError ''Expecting value''))"

fun is_number :: "int json \<Rightarrow> bool" where
  "is_number (JNum n) = True"
| "is_number v = False"

definition sample_plot :: "int segment list \<Rightarrow> int segment \<Rightarrow> py_exn option" where
  "sample_plot plotted seg =
     (if is_number (x1 seg) \<and> is_number (x2 seg) \<and> is_number (y1 seg) \<and> is_number (y2 seg)
      then None
      else Some (ValueError ''x and y must have same first dimension''))"

definition sample_vision :: "(picture, int) vision" where
  "sample_vision =
     \<lparr>completion = (\<lambda>img. Inr (Some ''sample'')),
      json_loads = sample_loads,
      open_figure = (\<lambda>img. None),
      ax_plot = sample_plot,
      render_figure = (\<lambda>img segs. Inr (Annotated img segs))\<rparr>"

definition unparsable_vision :: "(picture, int) vision" where
  "unparsable_vision = sample_vision\<lparr>completion := (\<lambda>img. Inr (Some ''Sorry, I cannot help.''))\<rparr>"

definition empty_vision :: "(picture, int) vision" where
  "empty_vision = sample_vision\<lparr>completion := (\<lambda>img. Inr (Some ''{}''))\<rparr>"

definition incomplete_vision :: "(picture, int) vision" where
  "incomplete_vision = sample_vision\<lparr>completion := (\<lambda>img. Inr (Some ''incomplete''))\<rparr>"

definition list_vision :: "(picture, int) vision" where
  "list_vision = sample_vision\<lparr>completion := (\<lambda>img. Inr (Some ''list''))\<rparr>"

section \<open>Unfolding the catalogs\<close>

lemmas entries_catch_trends =
  analysis_catch_trends_1_def analysis_catch_trends_2_def analysis_catch_trends_3_def
  analysis_catch_trends_4_def analysis_catch_trends_5_def analysis_catch_trends_6_def
  analysis_catch_trends_7_def analysis_catch_trends_8_def

lemmas entries_market =
  analysis_market_1_def analysis_market_2_def analysis_market_3_def analysis_market_4_def
  analysis_market_5_def analysis_market_6_def analysis_market_7_def analysis_market_8_def
  analysis_market_9_def analysis_market_10_def analysis_market_11_def
  analysis_market_12_def analysis_market_13_def analysis_market_14_def
  analysis_market_15_def analysis_market_16_def analysis_market_17_def
  analysis_market_18_def analysis_market_19_def analysis_market_20_def

lemmas entries_sector =
  analysis_sector_1_def analysis_sector_2_def analysis_sector_3_def analysis_sector_4_def
  analysis_sector_5_def analysis_sector_6_def analysis_sector_7_def analysis_sector_8_def
  analysis_sector_9_def

lemmas entries_engine =
  analysis_engine_1_def analysis_engine_2_def analysis_engine_3_def analysis_engine_4_def
  analysis_engine_5_def analysis_engine_6_def analysis_engine_7_def analysis_engine_8_def
  analysis_engine_9_def analysis_engine_10_def analysis_engine_11_def
  analysis_engine_12_def analysis_engine_13_def analysis_engine_14_def
  analysis_engine_15_def analysis_engine_16_def analysis_engine_17_def
  analysis_engine_18_def analysis_engine_19_def analysis_engine_20_def
  analysis_engine_21_def analysis_engine_22_def analysis_engine_23_def
  analysis_engine_24_def analysis_engine_25_def analysis_engine_26_def
  analysis_engine_27_def analysis_engine_28_def analysis_engine_29_def
section \<open>The dispatcher: credential and selection checks\<close>

lemma find_name_None:
  "analysis_name \<notin> Some ` name ` set ANALYSES \<Longrightarrow>
   find (\<lambda>a. Some (name a) = analysis_name) ANALYSES = None"
  by (auto simp: find_None_iff)

lemma contains_marker: "contains ''XAI_API_KEY'' key_missing_message"
  by (simp add: key_missing_message_def)

lemma names_catch_trends:
  "map name ANALYSES_catch_trends =
    [''Real-Time stock sentiment'',
     ''Analyze current discussions on X about emerging trends in sector'',
     ''Track Smart Money and Influencer Moves'',
     ''Identify Stocks with Viral Momentum'',
     ''Monitor Breaking News and Catalysts'',
     ''Gauge Retail vs. Institutional Sentiment'',
     ''Detect Early Warning Signs and Red Flags'',
     ''Create a Real-Time Watchlist Strategy'']"
  by (simp add: ANALYSES_catch_trends_def analysis_catch_trends_1_def analysis_catch_trends_2_def
      analysis_catch_trends_3_def analysis_catch_trends_4_def analysis_catch_trends_5_def
      analysis_catch_trends_6_def analysis_catch_trends_7_def analysis_catch_trends_8_def)

text \<open>
  C3. When the credential is unset (\<open>None\<close> or the empty string), whatever the
  catalog, the analysis name and the parameters are, the run yields exactly one value,
  the message that names \<open>XAI_API_KEY\<close>; it makes no call on the service and raises
  nothing.
\<close>

theorem credential_unset_single_error:
  "\<not> truthy (xai_api_key E) \<Longrightarrow>
   perform_analysis ANALYSES E analysis_name stock sector capfocus risk_level =
     \<lparr>yields = [key_missing_message], calls = [], raised = None\<rparr>
   \<and> contains ''XAI_API_KEY'' key_missing_message"
  by (cases "xai_api_key E") (simp_all add: perform_analysis_def contains_marker)

theorem credential_unset_single_error_witness:
  "\<not> truthy (xai_api_key no_key_env) \<and>
   yields (perform_analysis ANALYSES_catch_trends no_key_env (Some ''Real-Time stock sentiment'')
      (Some ''tsla'') None None None) = [key_missing_message]
   \<and> calls (perform_analysis ANALYSES_catch_trends no_key_env (Some ''Real-Time stock sentiment'')
      (Some ''tsla'') None None None) = []"
proof -
  have k: "\<not> truthy (xai_api_key no_key_env)"
    by (simp add: no_key_env_def sample_env_def)
  show ?thesis
    using k credential_unset_single_error [OF k, of ANALYSES_catch_trends
        "Some ''Real-Time stock sentiment''" "Some ''tsla''" None None None]
    by simp
qed

text \<open>
  C4. With the credential set, an analysis name that no entry of the catalog carries
  (an unset selection included) gives a run that yields exactly the one message
  \<open>Invalid Selection.\<close>, makes no call on the service and raises nothing.
\<close>

theorem unknown_name_single_message:
  "truthy (xai_api_key E) \<Longrightarrow> analysis_name \<notin> Some ` name ` set ANALYSES \<Longrightarrow>
   perform_analysis ANALYSES E analysis_name stock sector capfocus risk_level =
     \<lparr>yields = [''Invalid Selection.''], calls = [], raised = None\<rparr>"
  by (cases "xai_api_key E") (simp_all add: perform_analysis_def find_name_None)

theorem unknown_name_single_message_witness:
  "truthy (xai_api_key sample_env) \<and>
   Some ''Nonexistent'' \<notin> Some ` name ` set ANALYSES_catch_trends \<and>
   None \<notin> Some ` name ` set ANALYSES_catch_trends \<and>
   perform_analysis ANALYSES_catch_trends sample_env (Some ''Nonexistent'') (Some ''tsla'') None None None =
     \<lparr>yields = [''Invalid Selection.''], calls = [], raised = None\<rparr> \<and>
   perform_analysis ANALYSES_catch_trends sample_env None None None None None =
     \<lparr>yields = [''Invalid Selection.''], calls = [], raised = None\<rparr>"
proof -
  have k: "truthy (xai_api_key sample_env)"
    by (simp add: sample_env_def)
  have n: "Some ''Nonexistent'' \<notin> Some ` name ` set ANALYSES_catch_trends"
    unfolding set_map [symmetric] names_catch_trends by simp
  have u: "None \<notin> Some ` name ` set ANALYSES_catch_trends"
    by auto
  show ?thesis
    using k n u unknown_name_single_message [OF k n] unknown_name_single_message [OF k u]
    by simp
qed

section \<open>The dispatcher: streaming and failures\<close>

lemma stream_loop_head:
  "stream_loop full_text chunks = y # ys \<Longrightarrow> \<exists>suffix. suffix \<noteq> [] \<and> y = full_text @ suffix"
proof (induction chunks arbitrary: full_text)
  case Nil
  then show ?case by simp
next
  case (Cons content chunks)
  then show ?case by (cases "content = []") auto
qed

lemma stream_loop_grows:
  "Suc i < length (stream_loop full_text chunks) \<Longrightarrow>
   \<exists>suffix. suffix \<noteq> [] \<and>
     stream_loop full_text chunks ! Suc i = stream_loop full_text chunks ! i @ suffix"
proof (induction chunks arbitrary: full_text i)
  case Nil
  then show ?case by simp
next
  case (Cons content chunks)
  show ?case
  proof (cases "content = []")
    case True
    with Cons show ?thesis by simp
  next
    case False
    let ?rest = "stream_loop (full_text @ content) chunks"
    from False have eq: "stream_loop full_text (content # chunks) = (full_text @ content) # ?rest"
      by simp
    show ?thesis
    proof (cases i)
      case 0
      with Cons.prems eq obtain y ys where r: "?rest = y # ys"
        by (cases ?rest) auto
      from stream_loop_head [OF r] obtain suffix where "suffix \<noteq> []" "y = (full_text @ content) @ suffix"
        by blast
      with 0 eq r show ?thesis by simp
    next
      case (Suc j)
      with Cons.prems eq have "Suc j < length ?rest" by simp
      from Cons.IH [OF this] Suc eq show ?thesis by simp
    qed
  qed
qed

lemma stream_loop_concat:
  "stream_loop full_text chunks = map (\<lambda>n. full_text @ concat (take (Suc n) (filter (\<lambda>c. c \<noteq> []) chunks))) [0..<length (filter (\<lambda>c. c \<noteq> []) chunks)]"
proof (induction chunks arbitrary: full_text)
  case Nil
  then show ?case by simp
next
  case (Cons content chunks)
  show ?case
  proof (cases "content = []")
    case True
    with Cons show ?thesis by simp
  next
    case False
    then show ?thesis
      by (simp add: Cons upt_rec [of 0 "Suc _"] map_Suc_upt [symmetric] del: upt_Suc)
  qed
qed


lemma try_body_success:
  assumes "client_init E = None"
    and "format (prompt_template selected) kw = Inr prompt"
    and "chat_create E = None"
    and "chat_stream E [(System, system_instruction), (User, prompt)] = (chunks, failure)"
  shows "try_body E api_key selected kw =
    (stream_loop [] chunks,
     [Client api_key 300,
      Chat_create ''grok-4-1-fast-reasoning'' [''web_search'', ''x_search''],
      Chat_stream [(System, system_instruction), (User, prompt)]],
     failure)"
  using assms by (simp add: try_body_def)

text \<open>
  C1. A run with the credential set and a known analysis name, in which the client
  and the chat are created, the template is rendered and the stream ends without an
  exception, raises nothing and yields one value for each chunk with non-empty
  content: the concatenation of all such contents received so far. So each yield is
  the one before it followed by a non-empty suffix.
\<close>

theorem successful_run_prefix_monotonic:
  assumes "xai_api_key E = Some api_key" and "api_key \<noteq> []"
    and "find (\<lambda>a. Some (name a) = analysis_name) ANALYSES = Some selected"
    and "client_init E = None"
    and "format (prompt_template selected) (format_params E stock sector capfocus risk_level) = Inr prompt"
    and "chat_create E = None"
    and "chat_stream E [(System, system_instruction), (User, prompt)] = (chunks, None)"
  shows "let r = perform_analysis ANALYSES E analysis_name stock sector capfocus risk_level;
             fragments = filter (\<lambda>content. content \<noteq> []) chunks
         in raised r = None \<and>
            length (yields r) = length fragments \<and>
            (\<forall>i. i < length (yields r) \<longrightarrow> yields r ! i = concat (take (Suc i) fragments)) \<and>
            (\<forall>i. Suc i < length (yields r) \<longrightarrow>
               (\<exists>suffix. suffix \<noteq> [] \<and> yields r ! Suc i = yields r ! i @ suffix))"
proof -
  have r: "perform_analysis ANALYSES E analysis_name stock sector capfocus risk_level =
      \<lparr>yields = stream_loop [] chunks,
       calls = [Client api_key 300,
         Chat_create ''grok-4-1-fast-reasoning'' [''web_search'', ''x_search''],
         Chat_stream [(System, system_instruction), (User, prompt)]],
       raised = None\<rparr>"
    using assms(1-3) try_body_success [OF assms(4-7)]
    by (simp add: perform_analysis_def except_Exception_def)
  show ?thesis
    unfolding Let_def r
    using stream_loop_grows [of _ "[]" chunks]
    by (simp add: stream_loop_concat)
qed

lemma find_sentiment:
  "find (\<lambda>a. Some (name a) = Some ''Real-Time stock sentiment'') ANALYSES_catch_trends =
     Some analysis_catch_trends_1"
  by (simp add: ANALYSES_catch_trends_def analysis_catch_trends_1_def)

lemma upper_tsla: "upper U ''tsla'' = ''TSLA''"
proof -
  have "is_ascii ''tsla''" "map upper_char ''tsla'' = ''TSLA''"
    by code_simp+
  then show ?thesis by (simp add: upper_def)
qed

lemma format_sentiment:
  "format (prompt_template analysis_catch_trends_1) (format_params E (Some ''tsla'') None None None) =
     Inr (''Search X (Twitter) for the latest discussions about TSLA and analyze the sentiment. '' @
          ''Focus on actionable insights, not noise.'')"
  by (simp add: analysis_catch_trends_1_def format_params_def format_def get_field_def is_digit_def upper_tsla)

theorem successful_run_prefix_monotonic_witness:
  "yields (perform_analysis ANALYSES_catch_trends sample_env (Some ''Real-Time stock sentiment'')
      (Some ''tsla'') None None None) = [''# Report'', ''# Report on TSLA'']"
proof -
  let ?prompt = "''Search X (Twitter) for the latest discussions about TSLA and analyze the sentiment. '' @
          ''Focus on actionable insights, not noise.''"
  let ?r = "perform_analysis ANALYSES_catch_trends sample_env (Some ''Real-Time stock sentiment'')
      (Some ''tsla'') None None None"
  have a: "xai_api_key sample_env = Some ''xai-key''" "''xai-key'' \<noteq> []"
      "client_init sample_env = None" "chat_create sample_env = None"
      "chat_stream sample_env [(System, system_instruction), (User, ?prompt)] =
         ([''# Report'', [], '' on TSLA''], None)"
    by (simp_all add: sample_env_def)
  have m: "let r = ?r; fragments = filter (\<lambda>content. content \<noteq> []) [''# Report'', [], '' on TSLA'']
         in raised r = None \<and>
            length (yields r) = length fragments \<and>
            (\<forall>i. i < length (yields r) \<longrightarrow> yields r ! i = concat (take (Suc i) fragments)) \<and>
            (\<forall>i. Suc i < length (yields r) \<longrightarrow>
               (\<exists>suffix. suffix \<noteq> [] \<and> yields r ! Suc i = yields r ! i @ suffix))"
    by (rule successful_run_prefix_monotonic [OF a(1) a(2) find_sentiment a(3) format_sentiment a(4) a(5)])
  then have len: "length (yields ?r) = 2"
    and nth: "\<And>i. i < 2 \<Longrightarrow> yields ?r ! i = concat (take (Suc i) [''# Report'', '' on TSLA''])"
    by (simp_all add: Let_def)
  from nth [of 0] nth [of 1] have "yields ?r ! 0 = ''# Report''" "yields ?r ! 1 = ''# Report on TSLA''"
    by simp_all
  with len show ?thesis
    by (cases "yields ?r"; cases "tl (yields ?r)"; cases "tl (tl (yields ?r))") auto
qed



lemma find_price_path:
  "find (\<lambda>a. Some (name a) = Some ''Future Price Path Simulation'') ANALYSES_market =
     Some analysis_market_20"
  by (simp add: ANALYSES_market_def analysis_market_1_def analysis_market_2_def
      analysis_market_3_def analysis_market_4_def analysis_market_5_def analysis_market_6_def
      analysis_market_7_def analysis_market_8_def analysis_market_9_def analysis_market_10_def
      analysis_market_11_def analysis_market_12_def analysis_market_13_def analysis_market_14_def
      analysis_market_15_def analysis_market_16_def analysis_market_17_def analysis_market_18_def
      analysis_market_19_def analysis_market_20_def)

lemma format_price_path:
  "format (prompt_template analysis_market_20) (format_params E stock sector capfocus risk_level) =
     Inl (ValueError single_close)"
  by (simp add: analysis_market_20_def format_params_def format_def get_field_def is_digit_def)


lemma price_path_always_fails:
  assumes "xai_api_key E = Some api_key" and "api_key \<noteq> []" and "client_init E = None"
  shows "perform_analysis ANALYSES_market E (Some ''Future Price Path Simulation'')
           stock sector capfocus risk_level =
         \<lparr>yields = [error_message E (ValueError single_close)],
          calls = [Client api_key 300], raised = None\<rparr>"
  using assms find_price_path
  by (simp add: perform_analysis_def try_body_def format_price_path except_Exception_def)

text \<open>
  An exception that does not derive from \<open>Exception\<close> is not caught: it leaves the
  generator after the snapshots yielded so far.
\<close>

lemma base_exception_propagates:
  assumes "xai_api_key E = Some api_key" and "api_key \<noteq> []"
    and "find (\<lambda>a. Some (name a) = analysis_name) ANALYSES = Some selected"
    and "try_body E api_key selected (format_params E stock sector capfocus risk_level) =
           (ys, cs, Some (Interrupt m))"
  shows "perform_analysis ANALYSES E analysis_name stock sector capfocus risk_level =
           \<lparr>yields = ys, calls = cs, raised = Some (Interrupt m)\<rparr>"
  using assms by (simp add: perform_analysis_def except_Exception_def)

section \<open>Rendering the templates\<close>

text \<open>
  A \<open>KeyError\<close> from \<open>format\<close> names a placeholder of the template that the
  keyword arguments lack.
\<close>

lemma map_sum_Inl_iff: "map_sum id f r = Inl e \<longleftrightarrow> r = Inl e"
  by (cases r) auto

lemma isl_map_sum: "isl (map_sum f g r) = isl r"
  by (cases r) auto

lemma format_from_KeyError:
  "format_from kw mode template = Inl (KeyError k) \<Longrightarrow>
   kw k = None \<and> k \<in> set (placeholders_from mode template)"
proof (induction kw mode template rule: format_from.induct)
  case (1 kw)
  then show ?case by simp
next
  case (2 kw c cs)
  then show ?case
    by (auto simp: map_sum_Inl_iff split: if_splits list.splits)
next
  case (3 kw acc)
  then show ?case by simp
next
  case (4 kw acc c cs)
  then show ?case
    by (auto simp: map_sum_Inl_iff get_field_def split: if_splits sum.splits option.splits)
qed

lemma format_KeyError:
  "format template kw = Inl (KeyError k) \<Longrightarrow> kw k = None \<and> k \<in> set (placeholders template)"
  unfolding format_def placeholders_def by (rule format_from_KeyError)

subsection \<open>Reading a template chunk by chunk\<close>

text \<open>
  The templates are written as text without braces, joined with the replacement
  fields; the scanner can be followed one such piece at a time.
\<close>

lemma placeholders_from_text:
  "CHR ''{'' \<notin> set s \<Longrightarrow> CHR ''}'' \<notin> set s \<Longrightarrow>
   placeholders_from None (s @ t) = placeholders_from None t"
  by (induction s) auto

lemma placeholders_from_stock:
  "placeholders_from None (''{stock}'' @ t) = ''stock'' # placeholders_from None t"
  by simp

lemma placeholders_from_sector:
  "placeholders_from None (''{sector}'' @ t) = ''sector'' # placeholders_from None t"
  by simp

lemma placeholders_from_capfocus:
  "placeholders_from None (''{capfocus}'' @ t) = ''capfocus'' # placeholders_from None t"
  by simp

lemma placeholders_from_risk:
  "placeholders_from None (''{risk}'' @ t) = ''risk'' # placeholders_from None t"
  by simp

lemma placeholders_from_close:
  "c \<noteq> CHR ''}'' \<Longrightarrow>
   placeholders_from None (''}'' @ (c # s) @ t) = placeholders_from None ((c # s) @ t)"
  by simp

lemmas placeholders_chunks =
  placeholders_from_text placeholders_from_stock placeholders_from_sector
  placeholders_from_capfocus placeholders_from_risk placeholders_from_close

lemma format_from_text:
  "CHR ''{'' \<notin> set s \<Longrightarrow> CHR ''}'' \<notin> set s \<Longrightarrow>
   format_from kw None (s @ t) = map_sum id ((@) s) (format_from kw None t)"
proof (induction s)
  case Nil
  show ?case by (cases "format_from kw None t") auto
next
  case (Cons a s)
  then show ?case by (cases "format_from kw None t") auto
qed

lemma format_from_stock:
  "kw ''stock'' = Some v \<Longrightarrow>
   format_from kw None (''{stock}'' @ t) = map_sum id ((@) v) (format_from kw None t)"
  by (simp add: get_field_def is_digit_def)

lemma format_from_sector:
  "kw ''sector'' = Some v \<Longrightarrow>
   format_from kw None (''{sector}'' @ t) = map_sum id ((@) v) (format_from kw None t)"
  by (simp add: get_field_def is_digit_def)

lemma format_from_capfocus:
  "kw ''capfocus'' = Some v \<Longrightarrow>
   format_from kw None (''{capfocus}'' @ t) = map_sum id ((@) v) (format_from kw None t)"
  by (simp add: get_field_def is_digit_def)

lemma format_from_risk:
  "kw ''risk'' = Some v \<Longrightarrow>
   format_from kw None (''{risk}'' @ t) = map_sum id ((@) v) (format_from kw None t)"
  by (simp add: get_field_def is_digit_def)

lemma format_from_close:
  "c \<noteq> CHR ''}'' \<Longrightarrow>
   format_from kw None (''}'' @ (c # s) @ t) = Inl (ValueError single_close)"
  by simp

lemmas format_chunks =
  format_from_text format_from_stock format_from_sector format_from_capfocus format_from_risk
  format_from_close isl_map_sum


lemma fixed_keysE:
  assumes "fixed_keys \<subseteq> dom kw"
  obtains a b c d where "kw ''stock'' = Some a" "kw ''sector'' = Some b"
    "kw ''capfocus'' = Some c" "kw ''risk'' = Some d"
proof -
  from assms have "''stock'' \<in> dom kw" "''sector'' \<in> dom kw" "''capfocus'' \<in> dom kw"
      "''risk'' \<in> dom kw"
    unfolding fixed_keys_def by blast+
  then show thesis using that by blast
qed


subsection \<open>The entries of the four catalogs\<close>

text \<open>
  For each entry: its placeholders are among the four fixed keys, and with all four
  keys supplied it renders. The one exception is entry 20 of
  \<open>src/stock_and_market_research.py\<close>, whose template ends its field with \<open>}}\<close>
  and raises \<open>ValueError\<close>.
\<close>

lemma placeholders_catch_trends_1:
  "set (placeholders (prompt_template analysis_catch_trends_1)) \<subseteq> fixed_keys"
  by (simp add: analysis_catch_trends_1_def placeholders_def placeholders_chunks fixed_keys_def
      del: append.simps)

lemma renders_catch_trends_1:
  "fixed_keys \<subseteq> dom kw \<Longrightarrow> \<not> isl (format (prompt_template analysis_catch_trends_1) kw)"
  by (erule fixed_keysE)
    (simp add: analysis_catch_trends_1_def format_def format_chunks del: append.simps)

lemma placeholders_catch_trends_2:
  "set (placeholders (prompt_template analysis_catch_trends_2)) \<subseteq> fixed_keys"
  by (simp add: analysis_catch_trends_2_def placeholders_def placeholders_chunks fixed_keys_def
      del: append.simps)

lemma renders_catch_trends_2:
  "fixed_keys \<subseteq> dom kw \<Longrightarrow> \<not> isl (format (prompt_template analysis_catch_trends_2) kw)"
  by (erule fixed_keysE)
    (simp add: analysis_catch_trends_2_def format_def format_chunks del: append.simps)

lemma placeholders_catch_trends_3:
  "set (placeholders (prompt_template analysis_catch_trends_3)) \<subseteq> fixed_keys"
  by (simp add: analysis_catch_trends_3_def placeholders_def placeholders_chunks fixed_keys_def
      del: append.simps)

lemma renders_catch_trends_3:
  "fixed_keys \<subseteq> dom kw \<Longrightarrow> \<not> isl (format (prompt_template analysis_catch_trends_3) kw)"
  by (erule fixed_keysE)
    (simp add: analysis_catch_trends_3_def format_def format_chunks del: append.simps)

lemma placeholders_catch_trends_4:
  "set (placeholders (prompt_template analysis_catch_trends_4)) \<subseteq> fixed_keys"
  by (simp add: analysis_catch_trends_4_def placeholders_def placeholders_chunks fixed_keys_def
      del: append.simps)

lemma renders_catch_trends_4:
  "fixed_keys \<subseteq> dom kw \<Longrightarrow> \<not> isl (format (prompt_template analysis_catch_trends_4) kw)"
  by (erule fixed_keysE)
    (simp add: analysis_catch_trends_4_def format_def format_chunks del: append.simps)

lemma placeholders_catch_trends_5:
  "set (placeholders (prompt_template analysis_catch_trends_5)) \<subseteq> fixed_keys"
  by (simp add: analysis_catch_trends_5_def placeholders_def placeholders_chunks fixed_keys_def
      del: append.simps)

lemma renders_catch_trends_5:
  "fixed_keys \<subseteq> dom kw \<Longrightarrow> \<not> isl (format (prompt_template analysis_catch_trends_5) kw)"
  by (erule fixed_keysE)
    (simp add: analysis_catch_trends_5_def format_def format_chunks del: append.simps)

lemma placeholders_catch_trends_6:
  "set (placeholders (prompt_template analysis_catch_trends_6)) \<subseteq> fixed_keys"
  by (simp add: analysis_catch_trends_6_def placeholders_def placeholders_chunks fixed_keys_def
      del: append.simps)

lemma renders_catch_trends_6:
  "fixed_keys \<subseteq> dom kw \<Longrightarrow> \<not> isl (format (prompt_template analysis_catch_trends_6) kw)"
  by (erule fixed_keysE)
    (simp add: analysis_catch_trends_6_def format_def format_chunks del: append.simps)

lemma placeholders_catch_trends_7:
  "set (placeholders (prompt_template analysis_catch_trends_7)) \<subseteq> fixed_keys"
  by (simp add: analysis_catch_trends_7_def placeholders_def placeholders_chunks fixed_keys_def
      del: append.simps)

lemma renders_catch_trends_7:
  "fixed_keys \<subseteq> dom kw \<Longrightarrow> \<not> isl (format (prompt_template analysis_catch_trends_7) kw)"
  by (erule fixed_keysE)
    (simp add: analysis_catch_trends_7_def format_def format_chunks del: append.simps)

lemma placeholders_catch_trends_8:
  "set (placeholders (prompt_template analysis_catch_trends_8)) \<subseteq> fixed_keys"
  by (simp add: analysis_catch_trends_8_def placeholders_def placeholders_chunks fixed_keys_def
      del: append.simps)

lemma renders_catch_trends_8:
  "fixed_keys \<subseteq> dom kw \<Longrightarrow> \<not> isl (format (prompt_template analysis_catch_trends_8) kw)"
  by (erule fixed_keysE)
    (simp add: analysis_catch_trends_8_def format_def format_chunks del: append.simps)

lemma placeholders_market_1:
  "set (placeholders (prompt_template analysis_market_1)) \<subseteq> fixed_keys"
  by (simp add: analysis_market_1_def placeholders_def placeholders_chunks fixed_keys_def
      del: append.simps)

lemma renders_market_1:
  "fixed_keys \<subseteq> dom kw \<Longrightarrow> \<not> isl (format (prompt_template analysis_market_1) kw)"
  by (erule fixed_keysE)
    (simp add: analysis_market_1_def format_def format_chunks del: append.simps)

lemma placeholders_market_2:
  "set (placeholders (prompt_template analysis_market_2)) \<subseteq> fixed_keys"
  by (simp add: analysis_market_2_def placeholders_def placeholders_chunks fixed_keys_def
      del: append.simps)

lemma renders_market_2:
  "fixed_keys \<subseteq> dom kw \<Longrightarrow> \<not> isl (format (prompt_template analysis_market_2) kw)"
  by (erule fixed_keysE)
    (simp add: analysis_market_2_def format_def format_chunks del: append.simps)

lemma placeholders_market_3:
  "set (placeholders (prompt_template analysis_market_3)) \<subseteq> fixed_keys"
  by (simp add: analysis_market_3_def placeholders_def placeholders_chunks fixed_keys_def
      del: append.simps)

lemma renders_market_3:
  "fixed_keys \<subseteq> dom kw \<Longrightarrow> \<not> isl (format (prompt_template analysis_market_3) kw)"
  by (erule fixed_keysE)
    (simp add: analysis_market_3_def format_def format_chunks del: append.simps)

lemma placeholders_market_4:
  "set (placeholders (prompt_template analysis_market_4)) \<subseteq> fixed_keys"
  by (simp add: analysis_market_4_def placeholders_def placeholders_chunks fixed_keys_def
      del: append.simps)

lemma renders_market_4:
  "fixed_keys \<subseteq> dom kw \<Longrightarrow> \<not> isl (format (prompt_template analysis_market_4) kw)"
  by (erule fixed_keysE)
    (simp add: analysis_market_4_def format_def format_chunks del: append.simps)

lemma placeholders_market_5:
  "set (placeholders (prompt_template analysis_market_5)) \<subseteq> fixed_keys"
  by (simp add: analysis_market_5_def placeholders_def placeholders_chunks fixed_keys_def
      del: append.simps)

lemma renders_market_5:
  "fixed_keys \<subseteq> dom kw \<Longrightarrow> \<not> isl (format (prompt_template analysis_market_5) kw)"
  by (erule fixed_keysE)
    (simp add: analysis_market_5_def format_def format_chunks del: append.simps)

lemma placeholders_market_6:
  "set (placeholders (prompt_template analysis_market_6)) \<subseteq> fixed_keys"
  by (simp add: analysis_market_6_def placeholders_def placeholders_chunks fixed_keys_def
      del: append.simps)

lemma renders_market_6:
  "fixed_keys \<subseteq> dom kw \<Longrightarrow> \<not> isl (format (prompt_template analysis_market_6) kw)"
  by (erule fixed_keysE)
    (simp add: analysis_market_6_def format_def format_chunks del: append.simps)

lemma placeholders_market_7:
  "set (placeholders (prompt_template analysis_market_7)) \<subseteq> fixed_keys"
  by (simp add: analysis_market_7_def placeholders_def placeholders_chunks fixed_keys_def
      del: append.simps)

lemma renders_market_7:
  "fixed_keys \<subseteq> dom kw \<Longrightarrow> \<not> isl (format (prompt_template analysis_market_7) kw)"
  by (erule fixed_keysE)
    (simp add: analysis_market_7_def format_def format_chunks del: append.simps)

lemma placeholders_market_8:
  "set (placeholders (prompt_template analysis_market_8)) \<subseteq> fixed_keys"
  by (simp add: analysis_market_8_def placeholders_def placeholders_chunks fixed_keys_def
      del: append.simps)

lemma renders_market_8:
  "fixed_keys \<subseteq> dom kw \<Longrightarrow> \<not> isl (format (prompt_template analysis_market_8) kw)"
  by (erule fixed_keysE)
    (simp add: analysis_market_8_def format_def format_chunks del: append.simps)

lemma placeholders_market_9:
  "set (placeholders (prompt_template analysis_market_9)) \<subseteq> fixed_keys"
  by (simp add: analysis_market_9_def placeholders_def placeholders_chunks fixed_keys_def
      del: append.simps)

lemma renders_market_9:
  "fixed_keys \<subseteq> dom kw \<Longrightarrow> \<not> isl (format (prompt_template analysis_market_9) kw)"
  by (erule fixed_keysE)
    (simp add: analysis_market_9_def format_def format_chunks del: append.simps)

lemma placeholders_market_10:
  "set (placeholders (prompt_template analysis_market_10)) \<subseteq> fixed_keys"
  by (simp add: analysis_market_10_def placeholders_def placeholders_chunks fixed_keys_def
      del: append.simps)

lemma renders_market_10:
  "fixed_keys \<subseteq> dom kw \<Longrightarrow> \<not> isl (format (prompt_template analysis_market_10) kw)"
  by (erule fixed_keysE)
    (simp add: analysis_market_10_def format_def format_chunks del: append.simps)

lemma placeholders_market_11:
  "set (placeholders (prompt_template analysis_market_11)) \<subseteq> fixed_keys"
  by (simp add: analysis_market_11_def placeholders_def placeholders_chunks fixed_keys_def
      del: append.simps)

lemma renders_market_11:
  "fixed_keys \<subseteq> dom kw \<Longrightarrow> \<not> isl (format (prompt_template analysis_market_11) kw)"
  by (erule fixed_keysE)
    (simp add: analysis_market_11_def format_def format_chunks del: append.simps)

lemma placeholders_market_12:
  "set (placeholders (prompt_template analysis_market_12)) \<subseteq> fixed_keys"
  by (simp add: analysis_market_12_def placeholders_def placeholders_chunks fixed_keys_def
      del: append.simps)

lemma renders_market_12:
  "fixed_keys \<subseteq> dom kw \<Longrightarrow> \<not> isl (format (prompt_template analysis_market_12) kw)"
  by (erule fixed_keysE)
    (simp add: analysis_market_12_def format_def format_chunks del: append.simps)

lemma placeholders_market_13:
  "set (placeholders (prompt_template analysis_market_13)) \<subseteq> fixed_keys"
  by (simp add: analysis_market_13_def placeholders_def placeholders_chunks fixed_keys_def
      del: append.simps)

lemma renders_market_13:
  "fixed_keys \<subseteq> dom kw \<Longrightarrow> \<not> isl (format (prompt_template analysis_market_13) kw)"
  by (erule fixed_keysE)
    (simp add: analysis_market_13_def format_def format_chunks del: append.simps)

lemma placeholders_market_14:
  "set (placeholders (prompt_template analysis_market_14)) \<subseteq> fixed_keys"
  by (simp add: analysis_market_14_def placeholders_def placeholders_chunks fixed_keys_def
      del: append.simps)

lemma renders_market_14:
  "fixed_keys \<subseteq> dom kw \<Longrightarrow> \<not> isl (format (prompt_template analysis_market_14) kw)"
  by (erule fixed_keysE)
    (simp add: analysis_market_14_def format_def format_chunks del: append.simps)

lemma placeholders_market_15:
  "set (placeholders (prompt_template analysis_market_15)) \<subseteq> fixed_keys"
  by (simp add: analysis_market_15_def placeholders_def placeholders_chunks fixed_keys_def
      del: append.simps)

lemma renders_market_15:
  "fixed_keys \<subseteq> dom kw \<Longrightarrow> \<not> isl (format (prompt_template analysis_market_15) kw)"
  by (erule fixed_keysE)
    (simp add: analysis_market_15_def format_def format_chunks del: append.simps)

lemma placeholders_market_16:
  "set (placeholders (prompt_template analysis_market_16)) \<subseteq> fixed_keys"
  by (simp add: analysis_market_16_def placeholders_def placeholders_chunks fixed_keys_def
      del: append.simps)

lemma renders_market_16:
  "fixed_keys \<subseteq> dom kw \<Longrightarrow> \<not> isl (format (prompt_template analysis_market_16) kw)"
  by (erule fixed_keysE)
    (simp add: analysis_market_16_def format_def format_chunks del: append.simps)

lemma placeholders_market_17:
  "set (placeholders (prompt_template analysis_market_17)) \<subseteq> fixed_keys"
  by (simp add: analysis_market_17_def placeholders_def placeholders_chunks fixed_keys_def
      del: append.simps)

lemma renders_market_17:
  "fixed_keys \<subseteq> dom kw \<Longrightarrow> \<not> isl (format (prompt_template analysis_market_17) kw)"
  by (erule fixed_keysE)
    (simp add: analysis_market_17_def format_def format_chunks del: append.simps)

lemma placeholders_market_18:
  "set (placeholders (prompt_template analysis_market_18)) \<subseteq> fixed_keys"
  by (simp add: analysis_market_18_def placeholders_def placeholders_chunks fixed_keys_def
      del: append.simps)

lemma renders_market_18:
  "fixed_keys \<subseteq> dom kw \<Longrightarrow> \<not> isl (format (prompt_template analysis_market_18) kw)"
  by (erule fixed_keysE)
    (simp add: analysis_market_18_def format_def format_chunks del: append.simps)

lemma placeholders_market_19:
  "set (placeholders (prompt_template analysis_market_19)) \<subseteq> fixed_keys"
  by (simp add: analysis_market_19_def placeholders_def placeholders_chunks fixed_keys_def
      del: append.simps)

lemma renders_market_19:
  "fixed_keys \<subseteq> dom kw \<Longrightarrow> \<not> isl (format (prompt_template analysis_market_19) kw)"
  by (erule fixed_keysE)
    (simp add: analysis_market_19_def format_def format_chunks del: append.simps)

lemma placeholders_market_20:
  "set (placeholders (prompt_template analysis_market_20)) \<subseteq> fixed_keys"
  by (simp add: analysis_market_20_def placeholders_def placeholders_chunks fixed_keys_def
      del: append.simps)

lemma renders_market_20:
  "fixed_keys \<subseteq> dom kw \<Longrightarrow> format (prompt_template analysis_market_20) kw = Inl (ValueError single_close)"
  by (erule fixed_keysE)
    (simp add: analysis_market_20_def format_def format_chunks del: append.simps)

lemma placeholders_sector_1:
  "set (placeholders (prompt_template analysis_sector_1)) \<subseteq> fixed_keys"
  by (simp add: analysis_sector_1_def placeholders_def placeholders_chunks fixed_keys_def
      del: append.simps)

lemma renders_sector_1:
  "fixed_keys \<subseteq> dom kw \<Longrightarrow> \<not> isl (format (prompt_template analysis_sector_1) kw)"
  by (erule fixed_keysE)
    (simp add: analysis_sector_1_def format_def format_chunks del: append.simps)

lemma placeholders_sector_2:
  "set (placeholders (prompt_template analysis_sector_2)) \<subseteq> fixed_keys"
  by (simp add: analysis_sector_2_def placeholders_def placeholders_chunks fixed_keys_def
      del: append.simps)

lemma renders_sector_2:
  "fixed_keys \<subseteq> dom kw \<Longrightarrow> \<not> isl (format (prompt_template analysis_sector_2) kw)"
  by (erule fixed_keysE)
    (simp add: analysis_sector_2_def format_def format_chunks del: append.simps)

lemma placeholders_sector_3:
  "set (placeholders (prompt_template analysis_sector_3)) \<subseteq> fixed_keys"
  by (simp add: analysis_sector_3_def placeholders_def placeholders_chunks fixed_keys_def
      del: append.simps)

lemma renders_sector_3:
  "fixed_keys \<subseteq> dom kw \<Longrightarrow> \<not> isl (format (prompt_template analysis_sector_3) kw)"
  by (erule fixed_keysE)
    (simp add: analysis_sector_3_def format_def format_chunks del: append.simps)

lemma placeholders_sector_4:
  "set (placeholders (prompt_template analysis_sector_4)) \<subseteq> fixed_keys"
  by (simp add: analysis_sector_4_def placeholders_def placeholders_chunks fixed_keys_def
      del: append.simps)

lemma renders_sector_4:
  "fixed_keys \<subseteq> dom kw \<Longrightarrow> \<not> isl (format (prompt_template analysis_sector_4) kw)"
  by (erule fixed_keysE)
    (simp add: analysis_sector_4_def format_def format_chunks del: append.simps)

lemma placeholders_sector_5:
  "set (placeholders (prompt_template analysis_sector_5)) \<subseteq> fixed_keys"
  by (simp add: analysis_sector_5_def placeholders_def placeholders_chunks fixed_keys_def
      del: append.simps)

lemma renders_sector_5:
  "fixed_keys \<subseteq> dom kw \<Longrightarrow> \<not> isl (format (prompt_template analysis_sector_5) kw)"
  by (erule fixed_keysE)
    (simp add: analysis_sector_5_def format_def format_chunks del: append.simps)

lemma placeholders_sector_6:
  "set (placeholders (prompt_template analysis_sector_6)) \<subseteq> fixed_keys"
  by (simp add: analysis_sector_6_def placeholders_def placeholders_chunks fixed_keys_def
      del: append.simps)

lemma renders_sector_6:
  "fixed_keys \<subseteq> dom kw \<Longrightarrow> \<not> isl (format (prompt_template analysis_sector_6) kw)"
  by (erule fixed_keysE)
    (simp add: analysis_sector_6_def format_def format_chunks del: append.simps)

lemma placeholders_sector_7:
  "set (placeholders (prompt_template analysis_sector_7)) \<subseteq> fixed_keys"
  by (simp add: analysis_sector_7_def placeholders_def placeholders_chunks fixed_keys_def
      del: append.simps)

lemma renders_sector_7:
  "fixed_keys \<subseteq> dom kw \<Longrightarrow> \<not> isl (format (prompt_template analysis_sector_7) kw)"
  by (erule fixed_keysE)
    (simp add: analysis_sector_7_def format_def format_chunks del: append.simps)

lemma placeholders_sector_8:
  "set (placeholders (prompt_template analysis_sector_8)) \<subseteq> fixed_keys"
  by (simp add: analysis_sector_8_def placeholders_def placeholders_chunks fixed_keys_def
      del: append.simps)

lemma renders_sector_8:
  "fixed_keys \<subseteq> dom kw \<Longrightarrow> \<not> isl (format (prompt_template analysis_sector_8) kw)"
  by (erule fixed_keysE)
    (simp add: analysis_sector_8_def format_def format_chunks del: append.simps)

lemma placeholders_sector_9:
  "set (placeholders (prompt_template analysis_sector_9)) \<subseteq> fixed_keys"
  by (simp add: analysis_sector_9_def placeholders_def placeholders_chunks fixed_keys_def
      del: append.simps)

lemma renders_sector_9:
  "fixed_keys \<subseteq> dom kw \<Longrightarrow> \<not> isl (format (prompt_template analysis_sector_9) kw)"
  by (erule fixed_keysE)
    (simp add: analysis_sector_9_def format_def format_chunks del: append.simps)

lemma placeholders_engine_1:
  "set (placeholders (prompt_template analysis_engine_1)) \<subseteq> fixed_keys"
  by (simp add: analysis_engine_1_def placeholders_def placeholders_chunks fixed_keys_def
      del: append.simps)

lemma renders_engine_1:
  "fixed_keys \<subseteq> dom kw \<Longrightarrow> \<not> isl (format (prompt_template analysis_engine_1) kw)"
  by (erule fixed_keysE)
    (simp add: analysis_engine_1_def format_def format_chunks del: append.simps)

lemma placeholders_engine_2:
  "set (placeholders (prompt_template analysis_engine_2)) \<subseteq> fixed_keys"
  by (simp add: analysis_engine_2_def placeholders_def placeholders_chunks fixed_keys_def
      del: append.simps)

lemma renders_engine_2:
  "fixed_keys \<subseteq> dom kw \<Longrightarrow> \<not> isl (format (prompt_template analysis_engine_2) kw)"
  by (erule fixed_keysE)
    (simp add: analysis_engine_2_def format_def format_chunks del: append.simps)

lemma placeholders_engine_3:
  "set (placeholders (prompt_template analysis_engine_3)) \<subseteq> fixed_keys"
  by (simp add: analysis_engine_3_def placeholders_def placeholders_chunks fixed_keys_def
      del: append.simps)

lemma renders_engine_3:
  "fixed_keys \<subseteq> dom kw \<Longrightarrow> \<not> isl (format (prompt_template analysis_engine_3) kw)"
  by (erule fixed_keysE)
    (simp add: analysis_engine_3_def format_def format_chunks del: append.simps)

lemma placeholders_engine_4:
  "set (placeholders (prompt_template analysis_engine_4)) \<subseteq> fixed_keys"
  by (simp add: analysis_engine_4_def placeholders_def placeholders_chunks fixed_keys_def
      del: append.simps)

lemma renders_engine_4:
  "fixed_keys \<subseteq> dom kw \<Longrightarrow> \<not> isl (format (prompt_template analysis_engine_4) kw)"
  by (erule fixed_keysE)
    (simp add: analysis_engine_4_def format_def format_chunks del: append.simps)

lemma placeholders_engine_5:
  "set (placeholders (prompt_template analysis_engine_5)) \<subseteq> fixed_keys"
  by (simp add: analysis_engine_5_def placeholders_def placeholders_chunks fixed_keys_def
      del: append.simps)

lemma renders_engine_5:
  "fixed_keys \<subseteq> dom kw \<Longrightarrow> \<not> isl (format (prompt_template analysis_engine_5) kw)"
  by (erule fixed_keysE)
    (simp add: analysis_engine_5_def format_def format_chunks del: append.simps)

lemma placeholders_engine_6:
  "set (placeholders (prompt_template analysis_engine_6)) \<subseteq> fixed_keys"
  by (simp add: analysis_engine_6_def placeholders_def placeholders_chunks fixed_keys_def
      del: append.simps)

lemma renders_engine_6:
  "fixed_keys \<subseteq> dom kw \<Longrightarrow> \<not> isl (format (prompt_template analysis_engine_6) kw)"
  by (erule fixed_keysE)
    (simp add: analysis_engine_6_def format_def format_chunks del: append.simps)

lemma placeholders_engine_7:
  "set (placeholders (prompt_template analysis_engine_7)) \<subseteq> fixed_keys"
  by (simp add: analysis_engine_7_def placeholders_def placeholders_chunks fixed_keys_def
      del: append.simps)

lemma renders_engine_7:
  "fixed_keys \<subseteq> dom kw \<Longrightarrow> \<not> isl (format (prompt_template analysis_engine_7) kw)"
  by (erule fixed_keysE)
    (simp add: analysis_engine_7_def format_def format_chunks del: append.simps)

lemma placeholders_engine_8:
  "set (placeholders (prompt_template analysis_engine_8)) \<subseteq> fixed_keys"
  by (simp add: analysis_engine_8_def placeholders_def placeholders_chunks fixed_keys_def
      del: append.simps)

lemma renders_engine_8:
  "fixed_keys \<subseteq> dom kw \<Longrightarrow> \<not> isl (format (prompt_template analysis_engine_8) kw)"
  by (erule fixed_keysE)
    (simp add: analysis_engine_8_def format_def format_chunks del: append.simps)

lemma placeholders_engine_9:
  "set (placeholders (prompt_template analysis_engine_9)) \<subseteq> fixed_keys"
  by (simp add: analysis_engine_9_def placeholders_def placeholders_chunks fixed_keys_def
      del: append.simps)

lemma renders_engine_9:
  "fixed_keys \<subseteq> dom kw \<Longrightarrow> \<not> isl (format (prompt_template analysis_engine_9) kw)"
  by (erule fixed_keysE)
    (simp add: analysis_engine_9_def format_def format_chunks del: append.simps)

lemma placeholders_engine_10:
  "set (placeholders (prompt_template analysis_engine_10)) \<subseteq> fixed_keys"
  by (simp add: analysis_engine_10_def placeholders_def placeholders_chunks fixed_keys_def
      del: append.simps)

lemma renders_engine_10:
  "fixed_keys \<subseteq> dom kw \<Longrightarrow> \<not> isl (format (prompt_template analysis_engine_10) kw)"
  by (erule fixed_keysE)
    (simp add: analysis_engine_10_def format_def format_chunks del: append.simps)

lemma placeholders_engine_11:
  "set (placeholders (prompt_template analysis_engine_11)) \<subseteq> fixed_keys"
  by (simp add: analysis_engine_11_def placeholders_def placeholders_chunks fixed_keys_def
      del: append.simps)

lemma renders_engine_11:
  "fixed_keys \<subseteq> dom kw \<Longrightarrow> \<not> isl (format (prompt_template analysis_engine_11) kw)"
  by (erule fixed_keysE)
    (simp add: analysis_engine_11_def format_def format_chunks del: append.simps)

lemma placeholders_engine_12:
  "set (placeholders (prompt_template analysis_engine_12)) \<subseteq> fixed_keys"
  by (simp add: analysis_engine_12_def placeholders_def placeholders_chunks fixed_keys_def
      del: append.simps)

lemma renders_engine_12:
  "fixed_keys \<subseteq> dom kw \<Longrightarrow> \<not> isl (format (prompt_template analysis_engine_12) kw)"
  by (erule fixed_keysE)
    (simp add: analysis_engine_12_def format_def format_chunks del: append.simps)

lemma placeholders_engine_13:
  "set (placeholders (prompt_template analysis_engine_13)) \<subseteq> fixed_keys"
  by (simp add: analysis_engine_13_def placeholders_def placeholders_chunks fixed_keys_def
      del: append.simps)

lemma renders_engine_13:
  "fixed_keys \<subseteq> dom kw \<Longrightarrow> \<not> isl (format (prompt_template analysis_engine_13) kw)"
  by (erule fixed_keysE)
    (simp add: analysis_engine_13_def format_def format_chunks del: append.simps)

lemma placeholders_engine_14:
  "set (placeholders (prompt_template analysis_engine_14)) \<subseteq> fixed_keys"
  by (simp add: analysis_engine_14_def placeholders_def placeholders_chunks fixed_keys_def
      del: append.simps)

lemma renders_engine_14:
  "fixed_keys \<subseteq> dom kw \<Longrightarrow> \<not> isl (format (prompt_template analysis_engine_14) kw)"
  by (erule fixed_keysE)
    (simp add: analysis_engine_14_def format_def format_chunks del: append.simps)

lemma placeholders_engine_15:
  "set (placeholders (prompt_template analysis_engine_15)) \<subseteq> fixed_keys"
  by (simp add: analysis_engine_15_def placeholders_def placeholders_chunks fixed_keys_def
      del: append.simps)

lemma renders_engine_15:
  "fixed_keys \<subseteq> dom kw \<Longrightarrow> \<not> isl (format (prompt_template analysis_engine_15) kw)"
  by (erule fixed_keysE)
    (simp add: analysis_engine_15_def format_def format_chunks del: append.simps)

lemma placeholders_engine_16:
  "set (placeholders (prompt_template analysis_engine_16)) \<subseteq> fixed_keys"
  by (simp add: analysis_engine_16_def placeholders_def placeholders_chunks fixed_keys_def
      del: append.simps)

lemma renders_engine_16:
  "fixed_keys \<subseteq> dom kw \<Longrightarrow> \<not> isl (format (prompt_template analysis_engine_16) kw)"
  by (erule fixed_keysE)
    (simp add: analysis_engine_16_def format_def format_chunks del: append.simps)

lemma placeholders_engine_17:
  "set (placeholders (prompt_template analysis_engine_17)) \<subseteq> fixed_keys"
  by (simp add: analysis_engine_17_def placeholders_def placeholders_chunks fixed_keys_def
      del: append.simps)

lemma renders_engine_17:
  "fixed_keys \<subseteq> dom kw \<Longrightarrow> \<not> isl (format (prompt_template analysis_engine_17) kw)"
  by (erule fixed_keysE)
    (simp add: analysis_engine_17_def format_def format_chunks del: append.simps)

lemma placeholders_engine_18:
  "set (placeholders (prompt_template analysis_engine_18)) \<subseteq> fixed_keys"
  by (simp add: analysis_engine_18_def placeholders_def placeholders_chunks fixed_keys_def
      del: append.simps)

lemma renders_engine_18:
  "fixed_keys \<subseteq> dom kw \<Longrightarrow> \<not> isl (format (prompt_template analysis_engine_18) kw)"
  by (erule fixed_keysE)
    (simp add: analysis_engine_18_def format_def format_chunks del: append.simps)

lemma placeholders_engine_19:
  "set (placeholders (prompt_template analysis_engine_19)) \<subseteq> fixed_keys"
  by (simp add: analysis_engine_19_def placeholders_def placeholders_chunks fixed_keys_def
      del: append.simps)

lemma renders_engine_19:
  "fixed_keys \<subseteq> dom kw \<Longrightarrow> \<not> isl (format (prompt_template analysis_engine_19) kw)"
  by (erule fixed_keysE)
    (simp add: analysis_engine_19_def format_def format_chunks del: append.simps)

lemma placeholders_engine_20:
  "set (placeholders (prompt_template analysis_engine_20)) \<subseteq> fixed_keys"
  by (simp add: analysis_engine_20_def placeholders_def placeholders_chunks fixed_keys_def
      del: append.simps)

lemma renders_engine_20:
  "fixed_keys \<subseteq> dom kw \<Longrightarrow> \<not> isl (format (prompt_template analysis_engine_20) kw)"
  by (erule fixed_keysE)
    (simp add: analysis_engine_20_def format_def format_chunks del: append.simps)

lemma placeholders_engine_21:
  "set (placeholders (prompt_template analysis_engine_21)) \<subseteq> fixed_keys"
  by (simp add: analysis_engine_21_def placeholders_def placeholders_chunks fixed_keys_def
      del: append.simps)

lemma renders_engine_21:
  "fixed_keys \<subseteq> dom kw \<Longrightarrow> \<not> isl (format (prompt_template analysis_engine_21) kw)"
  by (erule fixed_keysE)
    (simp add: analysis_engine_21_def format_def format_chunks del: append.simps)

lemma placeholders_engine_22:
  "set (placeholders (prompt_template analysis_engine_22)) \<subseteq> fixed_keys"
  by (simp add: analysis_engine_22_def placeholders_def placeholders_chunks fixed_keys_def
      del: append.simps)

lemma renders_engine_22:
  "fixed_keys \<subseteq> dom kw \<Longrightarrow> \<not> isl (format (prompt_template analysis_engine_22) kw)"
  by (erule fixed_keysE)
    (simp add: analysis_engine_22_def format_def format_chunks del: append.simps)

lemma placeholders_engine_23:
  "set (placeholders (prompt_template analysis_engine_23)) \<subseteq> fixed_keys"
  by (simp add: analysis_engine_23_def placeholders_def placeholders_chunks fixed_keys_def
      del: append.simps)

lemma renders_engine_23:
  "fixed_keys \<subseteq> dom kw \<Longrightarrow> \<not> isl (format (prompt_template analysis_engine_23) kw)"
  by (erule fixed_keysE)
    (simp add: analysis_engine_23_def format_def format_chunks del: append.simps)

lemma placeholders_engine_24:
  "set (placeholders (prompt_template analysis_engine_24)) \<subseteq> fixed_keys"
  by (simp add: analysis_engine_24_def placeholders_def placeholders_chunks fixed_keys_def
      del: append.simps)

lemma renders_engine_24:
  "fixed_keys \<subseteq> dom kw \<Longrightarrow> \<not> isl (format (prompt_template analysis_engine_24) kw)"
  by (erule fixed_keysE)
    (simp add: analysis_engine_24_def format_def format_chunks del: append.simps)

lemma placeholders_engine_25:
  "set (placeholders (prompt_template analysis_engine_25)) \<subseteq> fixed_keys"
  by (simp add: analysis_engine_25_def placeholders_def placeholders_chunks fixed_keys_def
      del: append.simps)

lemma renders_engine_25:
  "fixed_keys \<subseteq> dom kw \<Longrightarrow> \<not> isl (format (prompt_template analysis_engine_25) kw)"
  by (erule fixed_keysE)
    (simp add: analysis_engine_25_def format_def format_chunks del: append.simps)

lemma placeholders_engine_26:
  "set (placeholders (prompt_template analysis_engine_26)) \<subseteq> fixed_keys"
  by (simp add: analysis_engine_26_def placeholders_def placeholders_chunks fixed_keys_def
      del: append.simps)

lemma renders_engine_26:
  "fixed_keys \<subseteq> dom kw \<Longrightarrow> \<not> isl (format (prompt_template analysis_engine_26) kw)"
  by (erule fixed_keysE)
    (simp add: analysis_engine_26_def format_def format_chunks del: append.simps)

lemma placeholders_engine_27:
  "set (placeholders (prompt_template analysis_engine_27)) \<subseteq> fixed_keys"
  by (simp add: analysis_engine_27_def placeholders_def placeholders_chunks fixed_keys_def
      del: append.simps)

lemma renders_engine_27:
  "fixed_keys \<subseteq> dom kw \<Longrightarrow> \<not> isl (format (prompt_template analysis_engine_27) kw)"
  by (erule fixed_keysE)
    (simp add: analysis_engine_27_def format_def format_chunks del: append.simps)

lemma placeholders_engine_28:
  "set (placeholders (prompt_template analysis_engine_28)) \<subseteq> fixed_keys"
  by (simp add: analysis_engine_28_def placeholders_def placeholders_chunks fixed_keys_def
      del: append.simps)

lemma renders_engine_28:
  "fixed_keys \<subseteq> dom kw \<Longrightarrow> \<not> isl (format (prompt_template analysis_engine_28) kw)"
  by (erule fixed_keysE)
    (simp add: analysis_engine_28_def format_def format_chunks del: append.simps)

lemma placeholders_engine_29:
  "set (placeholders (prompt_template analysis_engine_29)) \<subseteq> fixed_keys"
  by (simp add: analysis_engine_29_def placeholders_def placeholders_chunks fixed_keys_def
      del: append.simps)

lemma renders_engine_29:
  "fixed_keys \<subseteq> dom kw \<Longrightarrow> \<not> isl (format (prompt_template analysis_engine_29) kw)"
  by (erule fixed_keysE)
    (simp add: analysis_engine_29_def format_def format_chunks del: append.simps)

section \<open>Properties of the catalogs\<close>

lemma placeholders_catch_trends:
  "\<forall>d \<in> set ANALYSES_catch_trends. set (placeholders (prompt_template d)) \<subseteq> fixed_keys"
  by (simp add: ANALYSES_catch_trends_def
      placeholders_catch_trends_1 placeholders_catch_trends_2 placeholders_catch_trends_3
      placeholders_catch_trends_4 placeholders_catch_trends_5 placeholders_catch_trends_6
      placeholders_catch_trends_7 placeholders_catch_trends_8)

lemma placeholders_market:
  "\<forall>d \<in> set ANALYSES_market. set (placeholders (prompt_template d)) \<subseteq> fixed_keys"
  by (simp add: ANALYSES_market_def
      placeholders_market_1 placeholders_market_2 placeholders_market_3
      placeholders_market_4 placeholders_market_5 placeholders_market_6
      placeholders_market_7 placeholders_market_8 placeholders_market_9
      placeholders_market_10 placeholders_market_11 placeholders_market_12
      placeholders_market_13 placeholders_market_14 placeholders_market_15
      placeholders_market_16 placeholders_market_17 placeholders_market_18
      placeholders_market_19 placeholders_market_20)

lemma placeholders_sector:
  "\<forall>d \<in> set ANALYSES_sector. set (placeholders (prompt_template d)) \<subseteq> fixed_keys"
  by (simp add: ANALYSES_sector_def
      placeholders_sector_1 placeholders_sector_2 placeholders_sector_3
      placeholders_sector_4 placeholders_sector_5 placeholders_sector_6
      placeholders_sector_7 placeholders_sector_8 placeholders_sector_9)

lemma placeholders_engine:
  "\<forall>d \<in> set ANALYSES_engine. set (placeholders (prompt_template d)) \<subseteq> fixed_keys"
  by (simp add: ANALYSES_engine_def
      placeholders_engine_1 placeholders_engine_2 placeholders_engine_3
      placeholders_engine_4 placeholders_engine_5 placeholders_engine_6
      placeholders_engine_7 placeholders_engine_8 placeholders_engine_9
      placeholders_engine_10 placeholders_engine_11 placeholders_engine_12
      placeholders_engine_13 placeholders_engine_14 placeholders_engine_15
      placeholders_engine_16 placeholders_engine_17 placeholders_engine_18
      placeholders_engine_19 placeholders_engine_20 placeholders_engine_21
      placeholders_engine_22 placeholders_engine_23 placeholders_engine_24
      placeholders_engine_25 placeholders_engine_26 placeholders_engine_27
      placeholders_engine_28 placeholders_engine_29)

lemma renders_catch_trends:
  "fixed_keys \<subseteq> dom kw \<Longrightarrow>
   \<forall>d \<in> set ANALYSES_catch_trends. \<not> isl (format (prompt_template d) kw)"
  by (simp add: ANALYSES_catch_trends_def
      renders_catch_trends_1 renders_catch_trends_2 renders_catch_trends_3
      renders_catch_trends_4 renders_catch_trends_5 renders_catch_trends_6
      renders_catch_trends_7 renders_catch_trends_8)

lemma renders_market:
  "fixed_keys \<subseteq> dom kw \<Longrightarrow>
   \<forall>d \<in> set ANALYSES_market. d \<noteq> analysis_market_20 \<longrightarrow> \<not> isl (format (prompt_template d) kw)"
  by (simp add: ANALYSES_market_def
      renders_market_1 renders_market_2 renders_market_3 renders_market_4 renders_market_5
      renders_market_6 renders_market_7 renders_market_8 renders_market_9 renders_market_10
      renders_market_11 renders_market_12 renders_market_13 renders_market_14
      renders_market_15 renders_market_16 renders_market_17 renders_market_18
      renders_market_19)

lemma renders_sector:
  "fixed_keys \<subseteq> dom kw \<Longrightarrow>
   \<forall>d \<in> set ANALYSES_sector. \<not> isl (format (prompt_template d) kw)"
  by (simp add: ANALYSES_sector_def
      renders_sector_1 renders_sector_2 renders_sector_3 renders_sector_4 renders_sector_5
      renders_sector_6 renders_sector_7 renders_sector_8 renders_sector_9)

lemma renders_engine:
  "fixed_keys \<subseteq> dom kw \<Longrightarrow>
   \<forall>d \<in> set ANALYSES_engine. \<not> isl (format (prompt_template d) kw)"
  by (simp add: ANALYSES_engine_def
      renders_engine_1 renders_engine_2 renders_engine_3 renders_engine_4 renders_engine_5
      renders_engine_6 renders_engine_7 renders_engine_8 renders_engine_9 renders_engine_10
      renders_engine_11 renders_engine_12 renders_engine_13 renders_engine_14
      renders_engine_15 renders_engine_16 renders_engine_17 renders_engine_18
      renders_engine_19 renders_engine_20 renders_engine_21 renders_engine_22
      renders_engine_23 renders_engine_24 renders_engine_25 renders_engine_26
      renders_engine_27 renders_engine_28 renders_engine_29)


text \<open>
  C6. For every entry of each of the four catalogs, every placeholder of the template
  is one of the four fixed keys, and rendering the template with keyword arguments
  that supply the four keys never raises \<open>KeyError\<close>.
\<close>

theorem catalog_templates_never_miss_a_key:
  assumes "ANALYSES \<in> set catalogs" and "d \<in> set ANALYSES" and "fixed_keys \<subseteq> dom kw"
  shows "set (placeholders (prompt_template d)) \<subseteq> fixed_keys \<and>
         (\<forall>k. format (prompt_template d) kw \<noteq> Inl (KeyError k))"
proof -
  from assms(1) have "\<forall>d \<in> set ANALYSES. set (placeholders (prompt_template d)) \<subseteq> fixed_keys"
    unfolding catalogs_def
    using placeholders_catch_trends placeholders_market placeholders_sector placeholders_engine
    by auto
  with assms(2) have p: "set (placeholders (prompt_template d)) \<subseteq> fixed_keys"
    by blast
  have "format (prompt_template d) kw \<noteq> Inl (KeyError k)" for k
  proof
    assume "format (prompt_template d) kw = Inl (KeyError k)"
    from format_KeyError [OF this] p assms(3) show False
      by auto
  qed
  with p show ?thesis by blast
qed

lemma dom_format_params:
  "dom (format_params E stock sector capfocus risk_level) = fixed_keys"
  by (auto simp: format_params_def fixed_keys_def split: if_splits)

theorem catalog_templates_never_miss_a_key_witness:
  "ANALYSES_market \<in> set catalogs \<and> analysis_market_20 \<in> set ANALYSES_market \<and>
   fixed_keys \<subseteq> dom (format_params sample_env (Some ''tsla'') None None None) \<and>
   format (prompt_template analysis_market_20) (format_params sample_env (Some ''tsla'') None None None)
     \<noteq> Inl (KeyError ''stock'')"
proof -
  have a: "ANALYSES_market \<in> set catalogs"
    by (simp add: catalogs_def)
  have b: "analysis_market_20 \<in> set ANALYSES_market"
    by (simp add: ANALYSES_market_def)
  have c: "fixed_keys \<subseteq> dom (format_params sample_env (Some ''tsla'') None None None)"
    by (simp add: dom_format_params)
  from catalog_templates_never_miss_a_key [OF a b c] a b c show ?thesis
    by blast
qed

section \<open>The substitution map and its use by the dispatcher\<close>























section \<open>Recognised parameters and field visibility\<close>

subsection \<open>Recognised parameters and placeholders\<close>

text \<open>
  In \<open>src/FINAL_catch_trends_stream.py\<close> every entry lists as \<open>params\<close> exactly
  the placeholders of its template.
\<close>

lemma params_match_catch_trends:
  "\<forall>d \<in> set ANALYSES_catch_trends.
     \<exists>ps. params d = Some ps \<and> set ps = set (placeholders (prompt_template d))"
  by (simp add: ANALYSES_catch_trends_def entries_catch_trends placeholders_def
      placeholders_chunks insert_commute del: append.simps)

text \<open>
  Entry 12 of \<open>src/ResearchEngine/stock_and_market_research.py\<close> has the template of
  entry 12 of \<open>src/stock_and_market_research.py\<close> and lists no parameter.
\<close>

lemma engine_entry_12:
  "prompt_template analysis_engine_12 = prompt_template analysis_market_12 \<and>
   params analysis_engine_12 = Some []"
  by (simp add: analysis_engine_12_def analysis_market_12_def)

text \<open>
  C7. In \<open>src/stock_and_market_research.py\<close> the entries 6
  (\<open>Bear-to-Bull Flip Alert\<close>) and 12 (\<open>Crowded Trade Exit Signal\<close>) list the
  parameters \<open>sector\<close> and \<open>risk\<close>, and their templates have no placeholder at all.
\<close>

theorem params_without_placeholders:
  "analysis_market_6 \<in> set ANALYSES_market \<and>
   params analysis_market_6 = Some [''sector'', ''risk''] \<and>
   placeholders (prompt_template analysis_market_6) = [] \<and>
   analysis_market_12 \<in> set ANALYSES_market \<and>
   params analysis_market_12 = Some [''sector'', ''risk''] \<and>
   placeholders (prompt_template analysis_market_12) = []"
proof -
  have "analysis_market_6 \<in> set ANALYSES_market" "analysis_market_12 \<in> set ANALYSES_market"
    by (simp_all add: ANALYSES_market_def)
  moreover have "params analysis_market_6 = Some [''sector'', ''risk'']"
    "placeholders (prompt_template analysis_market_6) = []"
    by (simp_all add: analysis_market_6_def placeholders_def placeholders_chunks del: append.simps)
  moreover have "params analysis_market_12 = Some [''sector'', ''risk'']"
    "placeholders (prompt_template analysis_market_12) = []"
    by (simp_all add: analysis_market_12_def placeholders_def placeholders_chunks del: append.simps)
  ultimately show ?thesis by simp
qed

subsection \<open>The visibility flags\<close>

lemma update_visibility_flags:
  assumes "find (\<lambda>a. Some (name a) = choice) ANALYSES = Some selected"
    and "params selected = Some ps"
  shows "update_visibility ANALYSES choice =
    Inr [''stock'' \<in> set ps, ''sector'' \<in> set ps, ''capfocus'' \<in> set ps, ''risk'' \<in> set ps]"
  using assms by (simp add: update_visibility_def)

lemma update_visibility_unknown:
  "find (\<lambda>a. Some (name a) = choice) ANALYSES = None \<Longrightarrow>
   update_visibility ANALYSES choice = Inr [False, False, False, False]"
  by (simp add: update_visibility_def)

lemma update_visibility_total:
  assumes "\<forall>d \<in> set ANALYSES. params d \<noteq> None"
  shows "\<exists>flags. update_visibility ANALYSES choice = Inr flags"
proof (cases "find (\<lambda>a. Some (name a) = choice) ANALYSES")
  case None
  then show ?thesis by (simp add: update_visibility_unknown)
next
  case (Some selected)
  then have "selected \<in> set ANALYSES"
    by (auto simp: find_Some_iff)
  with assms obtain ps where "params selected = Some ps"
    by auto
  with Some show ?thesis by (simp add: update_visibility_flags)
qed

lemma params_present_catch_trends: "\<forall>d \<in> set ANALYSES_catch_trends. params d \<noteq> None"
  by (simp add: ANALYSES_catch_trends_def entries_catch_trends del: append.simps)

lemma find_emerging_trends_sector:
  "find (\<lambda>a. Some (name a) = Some ''Analyze current discussions on X about emerging trends in sector'')
     ANALYSES_sector = Some analysis_sector_2"
  by (simp add: ANALYSES_sector_def analysis_sector_1_def analysis_sector_2_def del: append.simps)

text \<open>
  C8. In \<open>src/stock_and_sector_research.py\<close> the entry named
  \<open>Analyze current discussions on X about emerging trends in sector\<close> has the key
  \<open>required_params\<close> and no key \<open>params\<close>, and \<open>update_visibility\<close> raises
  \<open>KeyError\<close> for this catalog name instead of returning the four flags.
\<close>

theorem update_visibility_raises_KeyError:
  "Some ''Analyze current discussions on X about emerging trends in sector''
     \<in> Some ` name ` set ANALYSES_sector \<and>
   params analysis_sector_2 = None \<and>
   required_params analysis_sector_2 = Some [''sector'', ''capfocus''] \<and>
   update_visibility ANALYSES_sector
     (Some ''Analyze current discussions on X about emerging trends in sector'') =
     Inl (KeyError ''params'')"
proof -
  have n: "name analysis_sector_2 =
      ''Analyze current discussions on X about emerging trends in sector''"
    and p: "params analysis_sector_2 = None"
    and r: "required_params analysis_sector_2 = Some [''sector'', ''capfocus'']"
    by (simp_all add: analysis_sector_2_def del: append.simps)
  have "analysis_sector_2 \<in> set ANALYSES_sector"
    by (simp add: ANALYSES_sector_def)
  with n have m: "Some ''Analyze current discussions on X about emerging trends in sector''
     \<in> Some ` name ` set ANALYSES_sector"
    by (metis image_eqI)
  have u: "update_visibility ANALYSES_sector
     (Some ''Analyze current discussions on X about emerging trends in sector'') =
     Inl (KeyError ''params'')"
    using find_emerging_trends_sector p by (simp add: update_visibility_def)
  from m p r u show ?thesis by simp
qed

section \<open>The chart classifier: parse failures and missing keys\<close>

text \<open>
  C9. When the vision service returns content that \<open>json.loads\<close> rejects, the
  exception of \<open>json.loads\<close> is the result of \<open>analyze_chart_with_openai\<close> and of
  \<open>process_image\<close>: nothing catches it and no explanation is returned.
\<close>

theorem parse_failure_propagates:
  assumes "completion V img = Inr (Some content)" and "json_loads V content = Inl e"
  shows "analyze_chart_with_openai V img = Inl e \<and> process_image V img = Inl e"
  using assms by (simp add: process_image_def analyze_chart_with_openai_def and_then_def)

theorem parse_failure_propagates_witness:
  "completion unparsable_vision Chart = Inr (Some ''Sorry, I cannot help.'') \<and>
   json_loads unparsable_vision ''Sorry, I cannot help.'' = Inl (JSONDecodeError ''Expecting value'') \<and>
   analyze_chart_with_openai unparsable_vision Chart = Inl (JSONDecodeError ''Expecting value'') \<and>
   process_image unparsable_vision Chart = Inl (JSONDecodeError ''Expecting value'')"
proof -
  have a: "completion unparsable_vision Chart = Inr (Some ''Sorry, I cannot help.'')"
    by (simp add: unparsable_vision_def)
  have b: "json_loads unparsable_vision ''Sorry, I cannot help.'' =
      Inl (JSONDecodeError ''Expecting value'')"
    by (simp add: unparsable_vision_def sample_vision_def sample_loads_def)
  from parse_failure_propagates [OF a b] a b show ?thesis
    by blast
qed

subsection \<open>Drawing the segments of a reply\<close>

lemma accepted_append:
  "accepted V plotted (xs @ ys) \<longleftrightarrow> accepted V plotted xs \<and> accepted V (plotted @ xs) ys"
  by (induction xs arbitrary: plotted) auto

lemma plot_line_accepted:
  assumes "line_segment line = Some seg" and "ax_plot V plotted seg = None"
  shows "plot_line V plotted line = Inr seg"
proof (cases line)
  case (JObj items)
  with assms(1) obtain a b c d where
    k: "map_of items ''x1'' = Some a" "map_of items ''x2'' = Some b"
      "map_of items ''y1'' = Some c" "map_of items ''y2'' = Some d"
    and s: "seg = \<lparr>x1 = a, y1 = c, x2 = b, y2 = d\<rparr>"
    by (auto simp: line_segment_def split: option.splits)
  from k s assms(2) JObj show ?thesis
    by (simp add: plot_line_def and_then_def)
qed (use assms(1) in \<open>simp_all add: line_segment_def\<close>)

lemma plot_lines_accepted:
  "those (map line_segment lines) = Some segs \<Longrightarrow> accepted V plotted segs \<Longrightarrow>
   plot_lines V plotted lines = Inr (plotted @ segs)"
proof (induction lines arbitrary: plotted segs)
  case Nil
  then show ?case by simp
next
  case (Cons line lines)
  from Cons.prems(1) obtain seg rest where
    l: "line_segment line = Some seg" and r: "those (map line_segment lines) = Some rest"
    and s: "segs = seg # rest"
    by (auto split: option.splits)
  from Cons.prems(2) s have p: "ax_plot V plotted seg = None" and a: "accepted V (plotted @ [seg]) rest"
    by simp_all
  from plot_line_accepted [OF l p] Cons.IH [OF r a] s show ?case
    by (simp add: and_then_def)
qed

lemma plot_pattern_accepted:
  assumes "pattern_segments pattern = Some segs" and "accepted V plotted segs"
  shows "plot_pattern V plotted pattern = Inr (plotted @ segs)"
proof -
  from assms(1) obtain items lines where p: "pattern = JObj items"
    and l: "listed ''trendlines'' items = Some lines"
    and t: "those (map line_segment lines) = Some segs"
    by (cases pattern) (auto simp: pattern_segments_def split: option.splits)
  have "and_then (iterate (case map_of items ''trendlines'' of None \<Rightarrow> JArr [] | Some v \<Rightarrow> v))
          (plot_lines V plotted) = plot_lines V plotted lines"
  proof (cases "map_of items ''trendlines''")
    case None
    with l show ?thesis by (simp add: listed_def and_then_def)
  next
    case (Some v)
    with l have "v = JArr lines"
      by (cases v) (simp_all add: listed_def)
    with Some show ?thesis by (simp add: and_then_def)
  qed
  with p plot_lines_accepted [OF t assms(2)] show ?thesis
    by (simp add: plot_pattern_def and_then_def)
qed

lemma plot_patterns_accepted:
  "those (map pattern_segments patterns) = Some segss \<Longrightarrow> accepted V plotted (concat segss) \<Longrightarrow>
   plot_patterns V plotted patterns = Inr (plotted @ concat segss)"
proof (induction patterns arbitrary: plotted segss)
  case Nil
  then show ?case by simp
next
  case (Cons pattern patterns)
  from Cons.prems(1) obtain segs rest where
    p: "pattern_segments pattern = Some segs"
    and r: "those (map pattern_segments patterns) = Some rest"
    and s: "segss = segs # rest"
    by (auto split: option.splits)
  from Cons.prems(2) s have a: "accepted V plotted segs"
    and b: "accepted V (plotted @ segs) (concat rest)"
    by (simp_all add: accepted_append)
  from plot_pattern_accepted [OF p a] Cons.IH [OF r b] s show ?case
    by (simp add: and_then_def)
qed

lemma draw_annotations_accepted:
  assumes "reply_segments items = Some segs" and "open_figure V img = None"
    and "accepted V [] segs"
  shows "draw_annotations V img (JObj items) = render_figure V img segs"
proof -
  from assms(1) obtain patterns segss where l: "listed ''patterns'' items = Some patterns"
    and t: "those (map pattern_segments patterns) = Some segss" and s: "segs = concat segss"
    by (auto simp: reply_segments_def split: option.splits)
  show ?thesis
  proof (cases "map_of items ''patterns''")
    case None
    then have "''patterns'' \<notin> set (map fst items)"
      by (simp add: map_of_eq_None_iff)
    moreover from None l t s have "segs = []"
      by (auto simp: listed_def)
    ultimately show ?thesis
      using assms(2) by (simp add: draw_annotations_def and_then_def)
  next
    case (Some v)
    with l have v: "v = JArr patterns"
      by (cases v) (simp_all add: listed_def)
    from Some have "''patterns'' \<in> set (map fst items)"
      using map_of_eq_None_iff [of items "''patterns''"] by auto
    moreover from plot_patterns_accepted [OF t, of V "[]"] assms(3) s
    have "plot_patterns V [] patterns = Inr segs"
      by simp
    ultimately show ?thesis
      using assms(2) Some v by (simp add: draw_annotations_def and_then_def)
  qed
qed

lemma no_patterns_no_segments:
  assumes "''patterns'' \<notin> set (map fst items)"
  shows "reply_segments items = Some []"
proof -
  from assms have "map_of items ''patterns'' = None"
    by (simp add: map_of_eq_None_iff)
  then show ?thesis
    by (simp add: reply_segments_def listed_def)
qed

lemma no_trendlines_no_segments:
  assumes "''trendlines'' \<notin> set (map fst items)"
  shows "pattern_segments (JObj items) = Some []"
proof -
  from assms have "map_of items ''trendlines'' = None"
    by (simp add: map_of_eq_None_iff)
  then show ?thesis
    by (simp add: pattern_segments_def listed_def)
qed

text \<open>
  The scenario of the specification: the reply with one pattern and one trendline
  gives the explanation of the reply and a picture with exactly the one segment asked
  for.
\<close>

lemma process_image_sample:
  "process_image sample_vision Chart =
     Inr (JStr ''Falling wedge.'',
          Annotated Chart [\<lparr>x1 = JNum 100, y1 = JNum 200, x2 = JNum 400, y2 = JNum 150\<rparr>])"
  by (simp add: process_image_def analyze_chart_with_openai_def and_then_def sample_vision_def
      sample_loads_def sample_reply_def draw_annotations_def plot_pattern_def plot_line_def
      sample_plot_def)

text \<open>A coordinate that \<open>ax.plot\<close> refuses makes \<open>process_image\<close> raise.\<close>

lemma refused_coordinate_raises:
  "process_image list_vision Chart = Inl (ValueError ''x and y must have same first dimension'')"
  by (simp add: process_image_def analyze_chart_with_openai_def and_then_def list_vision_def
      sample_vision_def sample_loads_def list_reply_def draw_annotations_def plot_pattern_def
      plot_line_def sample_plot_def)

text \<open>
  The claim as stated fails: a reply that is a JSON object without the key
  \<open>analysis\<close>, whose trendline lacks \<open>x1\<close>, makes \<open>process_image\<close> raise
  \<open>KeyError\<close> instead of returning the literal explanation.
\<close>

theorem missing_coordinate_raises:
  "completion incomplete_vision Chart = Inr (Some ''incomplete'') \<and>
   json_loads incomplete_vision ''incomplete'' = Inr incomplete_reply \<and>
   py_in ''analysis'' incomplete_reply = Inr False \<and>
   process_image incomplete_vision Chart = Inl (KeyError ''x1'')"
  by (simp add: process_image_def analyze_chart_with_openai_def and_then_def incomplete_vision_def
      sample_vision_def sample_loads_def incomplete_reply_def draw_annotations_def
      plot_pattern_def plot_line_def)

text \<open>
  C10, amended. Let the reply parse to a JSON object in which \<open>patterns\<close>, if
  present, is a list of objects, and \<open>trendlines\<close>, if present in a pattern, is a
  list of objects that each have \<open>x1\<close>, \<open>x2\<close>, \<open>y1\<close> and \<open>y2\<close>; let matplotlib
  open the figure, accept each \<open>ax.plot\<close> call for these trendlines in turn, and
  render the figure. Then \<open>process_image\<close> returns: the explanation is the value
  under \<open>analysis\<close>, or the literal \<open>No analysis returned.\<close> when the key is
  missing; the annotated image is the rendering of the image with exactly one segment
  for each trendline, so with none when \<open>patterns\<close> is missing, and a pattern
  without \<open>trendlines\<close> adds none.
\<close>

theorem process_image_degrades_on_missing_keys:
  assumes "completion V img = Inr (Some content)"
    and "json_loads V content = Inr (JObj items)"
    and "reply_segments items = Some segs"
    and "open_figure V img = None"
    and "accepted V [] segs"
    and "render_figure V img segs = Inr annotated"
  shows "process_image V img =
           Inr (case map_of items ''analysis'' of
                  None \<Rightarrow> JStr ''No analysis returned.''
                | Some v \<Rightarrow> v,
                annotated) \<and>
         (''patterns'' \<notin> set (map fst items) \<longrightarrow> segs = []) \<and>
         (\<forall>its. ''trendlines'' \<notin> set (map fst its) \<longrightarrow> pattern_segments (JObj its) = Some [])"
proof -
  have a: "analyze_chart_with_openai V img = Inr (JObj items)"
    using assms(1,2) by (simp add: analyze_chart_with_openai_def and_then_def)
  have d: "draw_annotations V img (JObj items) = Inr annotated"
    using draw_annotations_accepted [OF assms(3,4,5)] assms(6) by simp
  have p: "process_image V img =
           Inr (case map_of items ''analysis'' of
                  None \<Rightarrow> JStr ''No analysis returned.''
                | Some v \<Rightarrow> v,
                annotated)"
    using a d by (simp add: process_image_def and_then_def)
  have e: "segs = []" if "''patterns'' \<notin> set (map fst items)"
    using no_patterns_no_segments [OF that] assms(3) by simp
  from p e no_trendlines_no_segments show ?thesis
    by blast
qed

theorem process_image_degrades_on_missing_keys_witness:
  "process_image empty_vision Chart = Inr (JStr ''No analysis returned.'', Annotated Chart []) \<and>
   process_image sample_vision Chart =
     Inr (JStr ''Falling wedge.'',
          Annotated Chart [\<lparr>x1 = JNum 100, y1 = JNum 200, x2 = JNum 400, y2 = JNum 150\<rparr>])"
proof -
  let ?items = "[(''analysis'', JStr ''Falling wedge.''),
           (''patterns'',
            JArr [JObj [(''name'', JStr ''Falling Wedge''),
                        (''breakout_bias'', JStr ''bullish''),
                        (''trendlines'',
                         JArr [JObj [(''x1'', JNum 100), (''y1'', JNum 200),
                                     (''x2'', JNum 400), (''y2'', JNum (150::int))]])]])]"
  let ?segs = "[\<lparr>x1 = JNum 100, y1 = JNum 200, x2 = JNum 400, y2 = JNum (150::int)\<rparr>]"
  have a1: "completion sample_vision Chart = Inr (Some ''sample'')"
    by (simp add: sample_vision_def)
  have b1: "json_loads sample_vision ''sample'' = Inr (JObj ?items)"
    by (simp add: sample_vision_def sample_loads_def sample_reply_def)
  have c1: "reply_segments ?items = Some ?segs"
    by (simp add: reply_segments_def pattern_segments_def line_segment_def listed_def)
  have d1: "open_figure sample_vision Chart = None"
    by (simp add: sample_vision_def)
  have e1: "accepted sample_vision [] ?segs"
    by (simp add: sample_vision_def sample_plot_def)
  have f1: "render_figure sample_vision Chart ?segs = Inr (Annotated Chart ?segs)"
    by (simp add: sample_vision_def)
  have s: "process_image sample_vision Chart = Inr (JStr ''Falling wedge.'', Annotated Chart ?segs)"
    using process_image_degrades_on_missing_keys [OF a1 b1 c1 d1 e1 f1, THEN conjunct1] by simp
  have a2: "completion empty_vision Chart = Inr (Some ''{}'')"
    by (simp add: empty_vision_def)
  have b2: "json_loads empty_vision ''{}'' = Inr (JObj [])"
    by (simp add: empty_vision_def sample_vision_def sample_loads_def)
  have c2: "reply_segments ([] :: (string \<times> int json) list) = Some []"
    by (simp add: reply_segments_def listed_def)
  have d2: "open_figure empty_vision Chart = None"
    by (simp add: empty_vision_def sample_vision_def)
  have e2: "accepted empty_vision [] []"
    by simp
  have f2: "render_figure empty_vision Chart [] = Inr (Annotated Chart [])"
    by (simp add: empty_vision_def sample_vision_def)
  have "process_image empty_vision Chart = Inr (JStr ''No analysis returned.'', Annotated Chart [])"
    using process_image_degrades_on_missing_keys [OF a2 b2 c2 d2 e2 f2, THEN conjunct1] by simp
  with s show ?thesis
    by (rule conjI [rotated])
qed

end
